theory Spec2Isabelle
  imports Complex_Main "HOL-Library.Multiset" "HOL-Library.Product_Lexorder" "HOL-Library.AList"
begin

section \<open>Python values shared by both modules\<close>

text \<open>
  The classes \<^verbatim>\<open>TimeSeriesAnalysis\<close> (src/src/time_series_analysis.py) and
  \<^verbatim>\<open>TSAForecasting\<close> (src/src/tsa_forecasting.py) are embedded as functions that take
  the object and return the outcome of the call together with the object after it.
  The outcome of a call is a value of \<open>exn + 'a option\<close>: \<open>Inl e\<close> when the exception
  \<open>e\<close> leaves the method, \<open>Inr None\<close> when the method returns \<^verbatim>\<open>None\<close> and
  \<open>Inr (Some v)\<close> when it returns the value \<open>v\<close>.

  Floats are real numbers; a float that is NaN or infinite is \<open>None\<close> of type
  \<open>real option\<close>. Sums and means of columns are taken exactly. The growth rate of
  the forecast summary, three operations on two float64 scalars, is computed as
  numpy computes it, each operation rounded to the nearest float64 (\<open>f64\<close>
  below). Console output (\<^verbatim>\<open>print\<close>) is not modelled; the error log is.
\<close>

text \<open>
  Instances of Python's class \<^verbatim>\<open>Exception\<close>, by class. \<open>OtherError n\<close> is an
  instance of any further subclass, of name \<open>n\<close>.
\<close>

datatype exn =
    AttributeError
  | KeyError
  | IndexError
  | TypeError
  | ValueError
  | FileNotFoundError
  | PlotlyError
  | PlainException
  | OtherError string

text \<open>One call of \<^verbatim>\<open>self.log.error(f'<prefix>{e}')\<close>: the prefix and the exception.\<close>

type_synonym log_entry = "string \<times> exn"

subsection \<open>Calendar dates\<close>

text \<open>
  A timestamp at midnight, as (year, month, day); the order of dates is the
  lexicographic order of the triples.
\<close>

type_synonym date = "nat \<times> nat \<times> nat"

definition is_leap :: "nat \<Rightarrow> bool" where
  "is_leap y = ((y mod 4 = 0 \<and> y mod 100 \<noteq> 0) \<or> y mod 400 = 0)"

definition days_in_month :: "nat \<Rightarrow> nat \<Rightarrow> nat" where
  "days_in_month y m =
     (if m = 2 then (if is_leap y then 29 else 28)
      else if m = 4 \<or> m = 6 \<or> m = 9 \<or> m = 11 then 30
      else 31)"

definition valid_date :: "date \<Rightarrow> bool" where
  "valid_date d =
     (case d of (y, m, dd) \<Rightarrow> 1 \<le> m \<and> m \<le> 12 \<and> 1 \<le> dd \<and> dd \<le> days_in_month y m)"

text \<open>Months counted from year 0: the index of (y, m) is \<open>12 * y + (m - 1)\<close>.\<close>

definition month_index :: "date \<Rightarrow> nat" where
  "month_index d = (case d of (y, m, dd) \<Rightarrow> 12 * y + (m - 1))"

definition month_end :: "nat \<Rightarrow> date" where
  "month_end k = (k div 12, k mod 12 + 1, days_in_month (k div 12) (k mod 12 + 1))"

definition is_month_end :: "date \<Rightarrow> bool" where
  "is_month_end d = (d = month_end (month_index d))"

subsection \<open>Frames\<close>

text \<open>
  One row of the cleaned dataset; of its columns the two modules read
  \<^verbatim>\<open>Country\<close>, \<^verbatim>\<open>Date\<close> and \<^verbatim>\<open>Sales\<close>.
\<close>

record obs =
  Country :: string
  Date :: date
  Sales :: real

text \<open>
  A two-column frame (a date column and a value column) with the names of its
  columns: \<^verbatim>\<open>Date\<close>/\<^verbatim>\<open>Sales\<close> as \<^verbatim>\<open>data_organization\<close> returns it,
  \<^verbatim>\<open>ds\<close>/\<^verbatim>\<open>y\<close> after the caller's rename.
\<close>

record frame =
  date_col :: string
  value_col :: string
  rows :: "(date \<times> real) list"

text \<open>\<^verbatim>\<open>df[df['Country'] == c][['Date', 'Sales']]\<close>\<close>

definition select_country :: "string \<Rightarrow> obs list \<Rightarrow> (date \<times> real) list" where
  "select_country c df = map (\<lambda>r. (Date r, Sales r)) (filter (\<lambda>r. Country r = c) df)"

text \<open>
  \<^verbatim>\<open>df.sort_values(by = 'Date')\<close>; the order in which rows of one date come out
  does not matter to the aggregates taken afterwards.
\<close>

definition sort_values :: "(date \<times> real) list \<Rightarrow> (date \<times> real) list" where
  "sort_values df = sort_key fst df"

text \<open>
  \<^verbatim>\<open>df.groupby('Date')['Sales']\<close>: one group per distinct date, the groups in
  ascending order of the date; \<open>group_values\<close> are the values of one group.
\<close>

definition group_keys :: "(date \<times> real) list \<Rightarrow> date list" where
  "group_keys df = sort (remdups (map fst df))"

definition group_values :: "date \<Rightarrow> (date \<times> real) list \<Rightarrow> real list" where
  "group_values d df = map snd (filter (\<lambda>r. fst r = d) df)"

text \<open>\<^verbatim>\<open>.sum()\<close> and \<^verbatim>\<open>.mean()\<close> of the groups.\<close>

definition groupby_sum :: "(date \<times> real) list \<Rightarrow> (date \<times> real) list" where
  "groupby_sum df = map (\<lambda>d. (d, sum_list (group_values d df))) (group_keys df)"

definition groupby_mean :: "(date \<times> real) list \<Rightarrow> (date \<times> real) list" where
  "groupby_mean df =
     map (\<lambda>d. (d, sum_list (group_values d df) / real (length (group_values d df))))
       (group_keys df)"

text \<open>
  \<^verbatim>\<open>series.rolling(window = w).mean()\<close> with the default \<^verbatim>\<open>min_periods\<close> (the window
  size): pandas slides a window over the series, keeping the last \<open>w\<close> observations
  (\<open>last_w\<close>), and reports their mean once the window holds \<open>w\<close> of them, NaN before
  (\<open>window_mean\<close>). In \<open>roll_mean\<close>, \<open>win\<close> is the window before the next observation
  enters.
\<close>

definition last_w :: "nat \<Rightarrow> real list \<Rightarrow> real list" where
  "last_w w a = drop (length a - w) a"

definition window_mean :: "nat \<Rightarrow> real list \<Rightarrow> real option" where
  "window_mean w v =
     (if w \<le> length v \<and> v \<noteq> [] then Some (sum_list v / real (length v)) else None)"

fun roll_mean :: "nat \<Rightarrow> real list \<Rightarrow> real list \<Rightarrow> real option list" where
  "roll_mean w win [] = []"
| "roll_mean w win (x # xs) =
     window_mean w (last_w w (win @ [x])) # roll_mean w (last_w w (win @ [x])) xs"

definition rolling_mean :: "nat \<Rightarrow> real list \<Rightarrow> real option list" where
  "rolling_mean w xs = roll_mean w [] xs"

text \<open>
  Python's slice \<^verbatim>\<open>xs[a:b]\<close> (\<^verbatim>\<open>.iloc[a:b]\<close>): a negative bound counts from the end,
  and both bounds are clipped to the sequence.
\<close>

definition slice_bound :: "nat \<Rightarrow> int \<Rightarrow> nat" where
  "slice_bound n i = (if i < 0 then nat (int n + i) else min n (nat i))"

definition py_slice :: "int \<Rightarrow> int \<Rightarrow> 'a list \<Rightarrow> 'a list" where
  "py_slice a b xs =
     (let lo = slice_bound (length xs) a; hi = slice_bound (length xs) b
      in take (hi - lo) (drop lo xs))"

text \<open>\<^verbatim>\<open>xs.iloc[-1]\<close>: the last element; IndexError on an empty sequence.\<close>

definition iloc_last :: "'a list \<Rightarrow> exn + 'a" where
  "iloc_last xs = (if xs = [] then Inl IndexError else Inr (last xs))"

text \<open>
  Division of numpy floats: dividing by zero raises nothing, the quotient is
  infinite or NaN.
\<close>

definition np_div :: "real \<Rightarrow> real \<Rightarrow> real option" where
  "np_div a b = (if b = 0 then None else Some (a / b))"

subsection \<open>Rounding to float64\<close>

text \<open>
  A float64 has a significand of 53 bits. A real number \<open>x\<close> with
  \<open>2 ^ e \<le> \<bar>x\<bar> < 2 ^ (e + 1)\<close> is rounded to the nearest multiple of
  \<open>2 ^ (e - 52)\<close>, a tie going to the even multiple; below \<open>2 ^ (- 1022)\<close> the
  spacing stays that of \<open>e = - 1022\<close> (subnormal numbers). A result of magnitude
  \<open>2 ^ 1024\<close> or more is infinite.
\<close>

text \<open>
  The exponent \<open>e\<close> of \<open>x\<close>, found by counting up from 0 when \<open>1 \<le> \<bar>x\<bar>\<close> and
  down from 0 otherwise; it stays within the exponents of float64 numbers,
  from \<open>- 1022\<close> on (a value so large that the count up ends early is infinite
  after rounding).
\<close>

fun binade_up :: "nat \<Rightarrow> int \<Rightarrow> real \<Rightarrow> int" where
  "binade_up 0 e a = e"
| "binade_up (Suc n) e a = (if 2 powi (e + 1) \<le> a then binade_up n (e + 1) a else e)"

fun binade_down :: "nat \<Rightarrow> int \<Rightarrow> real \<Rightarrow> int" where
  "binade_down 0 e a = e"
| "binade_down (Suc n) e a = (if a < 2 powi e then binade_down n (e - 1) a else e)"

definition binade :: "real \<Rightarrow> int" where
  "binade x = (if 1 \<le> \<bar>x\<bar> then binade_up 1100 0 \<bar>x\<bar> else binade_down 1022 0 \<bar>x\<bar>)"

definition round_half_even :: "real \<Rightarrow> int" where
  "round_half_even y =
     (let f = \<lfloor>y\<rfloor>; r = y - of_int f
      in if r < 1 / 2 then f else if 1 / 2 < r then f + 1 else if even f then f else f + 1)"

definition round64 :: "real \<Rightarrow> real" where
  "round64 x =
     (if x = 0 then 0
      else (let e = binade x
            in of_int (round_half_even (x * 2 powi (52 - e))) * 2 powi (e - 52)))"

definition f64 :: "real \<Rightarrow> real option" where
  "f64 x = (if 2 ^ 1024 \<le> \<bar>round64 x\<bar> then None else Some (round64 x))"

section \<open>TimeSeriesAnalysis\<close>

record time_series_analysis =
  input_data :: "obs list"
  tsa_log :: "log_entry list"

text \<open>One row of a country's frame in the result of \<^verbatim>\<open>moving_average_analysis\<close>.\<close>

record ma_row =
  ma_date :: date
  ma_sales :: real
  Moving_Average :: "real option"

text \<open>
  The body of the loop of \<^verbatim>\<open>moving_average_analysis\<close> for one country (lines
  228 to 232): \<open>country_rows\<close> is the frame it builds, with the columns
  \<^verbatim>\<open>Sales\<close> (the mean per date) and \<^verbatim>\<open>Moving_Average\<close>; pandas refuses a negative
  window with a ValueError.
\<close>

definition country_rows :: "obs list \<Rightarrow> nat \<Rightarrow> string \<Rightarrow> ma_row list" where
  "country_rows df w country =
     (let country_sales = select_country country df;
          country_sales_sorted = sort_values country_sales;
          aggregated_country_sales = groupby_mean country_sales_sorted
      in map (\<lambda>(r, m). \<lparr>ma_date = fst r, ma_sales = snd r, Moving_Average = m\<rparr>)
           (zip aggregated_country_sales
              (rolling_mean w (map snd aggregated_country_sales))))"

definition country_moving_average :: "obs list \<Rightarrow> int \<Rightarrow> string \<Rightarrow> exn + ma_row list" where
  "country_moving_average df window country =
     (if window < 0 then Inl ValueError else Inr (country_rows df (nat window) country))"

text \<open>The loop over the countries, filling the dictionary; the first exception ends it.\<close>

fun ma_loop :: "obs list \<Rightarrow> int \<Rightarrow> string list \<Rightarrow> exn + (string \<times> ma_row list) list" where
  "ma_loop df window [] = Inr []"
| "ma_loop df window (c # cs) =
     (case country_moving_average df window c of
        Inl e \<Rightarrow> Inl e
      | Inr t \<Rightarrow> (case ma_loop df window cs of
                   Inl e \<Rightarrow> Inl e
                 | Inr rest \<Rightarrow> Inr ((c, t) # rest)))"

text \<open>
  \<^verbatim>\<open>moving_average_analysis\<close>: the dictionary is an association list with one
  entry per country; every exception is caught, logged and answered with None.
\<close>

definition moving_average_analysis ::
  "time_series_analysis \<Rightarrow> int \<Rightarrow>
     (exn + (string \<times> ma_row list) list option) \<times> time_series_analysis" where
  "moving_average_analysis self window =
     (let unique_countries = remdups (map Country (input_data self))
      in case ma_loop (input_data self) window unique_countries of
           Inr country_sales_data \<Rightarrow> (Inr (Some country_sales_data), self)
         | Inl e \<Rightarrow>
             (Inr None, self\<lparr>tsa_log := tsa_log self @ [(''Could not group data: '', e)]\<rparr>))"

subsection \<open>Seasonal decomposition\<close>

text \<open>
  Modelled from the spec: \<^verbatim>\<open>seasonal_decompose\<close> is the routine of the statsmodels
  library that \<^verbatim>\<open>decompose_revenue\<close> calls (line 56); its code is not part of the
  repository. The steps are those of section 4.2 of the specification (centred
  moving average, detrending by division, average per calendar position, indices
  normalised by their mean, indices tiled over the series, residual by division),
  for the multiplicative model. The library signals a series with a value that is
  not positive, and a series shorter than two periods, with Python's ValueError.
\<close>

record decompose_result =
  observed :: "real list"
  trend :: "real option list"
  seasonal :: "real option list"
  resid :: "real option list"

text \<open>
  The weights of the centred moving average: for an even period, half weight on the
  two outer points of a window of period + 1 points.
\<close>

definition seasonal_filter :: "nat \<Rightarrow> real list" where
  "seasonal_filter p =
     (if even p then [0.5 / real p] @ replicate (p - 1) (1 / real p) @ [0.5 / real p]
      else replicate p (1 / real p))"

definition centred_trend :: "nat \<Rightarrow> real list \<Rightarrow> real option list" where
  "centred_trend p x =
     map (\<lambda>i. if p div 2 \<le> i \<and> i + p div 2 < length x
              then Some (sum_list (map2 (*) (seasonal_filter p) (drop (i - p div 2) x)))
              else None)
       [0..<length x]"

definition detrend :: "real list \<Rightarrow> real option list \<Rightarrow> real option list" where
  "detrend x t = map2 (\<lambda>v u. case u of None \<Rightarrow> None | Some w \<Rightarrow> np_div v w) x t"

text \<open>The mean of the values that are defined; NaN when there is none.\<close>

definition nanmean :: "real option list \<Rightarrow> real option" where
  "nanmean vs =
     (let ws = List.map_filter id vs
      in if ws = [] then None else Some (sum_list ws / real (length ws)))"

text \<open>The mean of all the values; NaN when one of them is.\<close>

definition np_mean :: "real option list \<Rightarrow> real option" where
  "np_mean vs =
     (if vs \<noteq> [] \<and> list_all (\<lambda>v. v \<noteq> None) vs
      then Some (sum_list (map the vs) / real (length vs))
      else None)"

definition seasonal_mean :: "nat \<Rightarrow> real option list \<Rightarrow> real option list" where
  "seasonal_mean p d =
     map (\<lambda>k. nanmean (map (\<lambda>i. d ! i) (filter (\<lambda>i. i mod p = k) [0..<length d]))) [0..<p]"

definition normalise_indices :: "real option list \<Rightarrow> real option list" where
  "normalise_indices avgs =
     (case np_mean avgs of
        None \<Rightarrow> map (\<lambda>a. None) avgs
      | Some m \<Rightarrow> map (\<lambda>a. case a of None \<Rightarrow> None | Some v \<Rightarrow> np_div v m) avgs)"

text \<open>The seasonal indices of a series: one per calendar position.\<close>

definition seasonal_indices :: "nat \<Rightarrow> real list \<Rightarrow> real option list" where
  "seasonal_indices p x = normalise_indices (seasonal_mean p (detrend x (centred_trend p x)))"

definition tile :: "nat \<Rightarrow> 'a list \<Rightarrow> 'a list" where
  "tile n idx = map (\<lambda>i. idx ! (i mod length idx)) [0..<n]"

definition residual :: "real list \<Rightarrow> real option list \<Rightarrow> real option list \<Rightarrow> real option list" where
  "residual x s t =
     map (\<lambda>(v, a, b). case (a, b) of
            (Some sv, Some tv) \<Rightarrow> (case np_div v sv of None \<Rightarrow> None | Some q \<Rightarrow> np_div q tv)
          | _ \<Rightarrow> None)
       (zip x (zip s t))"

definition seasonal_decompose :: "nat \<Rightarrow> real list \<Rightarrow> exn + decompose_result" where
  "seasonal_decompose p x =
     (if list_ex (\<lambda>v. v \<le> 0) x then Inl ValueError
      else if length x < 2 * p then Inl ValueError
      else (let t = centred_trend p x;
                s = tile (length x) (seasonal_indices p x)
            in Inr \<lparr>observed = x, trend = t, seasonal = s, resid = residual x s t\<rparr>))"

subsection \<open>decompose_revenue\<close>

text \<open>The figure: its four traces, from top to bottom.\<close>

record decomposition_plot =
  original_trace :: "real list"
  trend_trace :: "real option list"
  seasonal_trace :: "real option list"
  residual_trace :: "real option list"

text \<open>
  Lines 54 and 55: the series handed to the decomposition is the sum of
  \<^verbatim>\<open>Sales\<close> per date, one point per distinct date.
\<close>

definition monthly_revenue :: "obs list \<Rightarrow> (date \<times> real) list" where
  "monthly_revenue df = groupby_sum (sort_values (map (\<lambda>r. (Date r, Sales r)) df))"

text \<open>
  \<^verbatim>\<open>decompose_revenue\<close>, over the decomposition routine \<open>sd\<close> it calls with period
  12. The only handler is \<^verbatim>\<open>except pe.PlotlyError\<close>: an exception of another
  class leaves the method.
\<close>

definition decompose_revenue ::
  "(nat \<Rightarrow> real list \<Rightarrow> exn + decompose_result) \<Rightarrow> time_series_analysis \<Rightarrow>
     (exn + decomposition_plot option) \<times> time_series_analysis" where
  "decompose_revenue sd self =
     (let data = monthly_revenue (input_data self)
      in case sd 12 (map snd data) of
           Inr result \<Rightarrow>
             (Inr (Some \<lparr>original_trace = map snd data, trend_trace = trend result,
                         seasonal_trace = seasonal result, residual_trace = resid result\<rparr>),
              self)
         | Inl e \<Rightarrow>
             (if e = PlotlyError
              then (Inr None, self\<lparr>tsa_log := tsa_log self @ [(''Couldn't plot data: '', e)]\<rparr>)
              else (Inl e, self)))"

section \<open>The Prophet library\<close>

text \<open>
  The forecasting model is the class \<^verbatim>\<open>Prophet\<close> of the prophet library. Its
  numerical part is a parameter of the embedding: \<open>new_model\<close> is the constructor's
  check of its arguments, \<open>optimize\<close> the fitting of the parameters, which yields
  the predictor of the fitted model. A predictor gives, for the dates it is asked
  about, the point estimate with its lower and upper bound at each date, or raises.
  What the library does with the dates is written out below.
\<close>

datatype pyval = PyBool bool | PyStr string

type_synonym kwargs = "(string \<times> pyval) list"

type_synonym estimate = "real \<times> real \<times> real"

type_synonym predictor = "date list \<Rightarrow> exn + (date \<Rightarrow> estimate)"

record backend =
  new_model :: "kwargs \<Rightarrow> exn option"
  optimize :: "(date \<times> real) list \<Rightarrow> exn + predictor"

text \<open>
  A Prophet object: the dates of its training data, and its predictor, both absent
  until \<^verbatim>\<open>fit\<close> stores them.
\<close>

record prophet =
  history_dates :: "date list option"
  predictor :: "predictor option"

record fc_row =
  ds :: date
  yhat :: real
  yhat_lower :: real
  yhat_upper :: real

text \<open>
  \<^verbatim>\<open>Prophet.fit(df)\<close>: the frame needs the columns \<^verbatim>\<open>ds\<close> and \<^verbatim>\<open>y\<close> and two rows;
  the training dates (distinct, ascending) are stored before the parameters are
  fitted. The result is the exception raised, if any, and the object after the call.
\<close>

definition prophet_fit :: "backend \<Rightarrow> prophet \<Rightarrow> frame \<Rightarrow> exn option \<times> prophet" where
  "prophet_fit be m df =
     (if history_dates m \<noteq> None then (Some PlainException, m)
      else if date_col df \<noteq> ''ds'' \<or> value_col df \<noteq> ''y'' then (Some ValueError, m)
      else if length (rows df) < 2 then (Some ValueError, m)
      else (let m1 = m\<lparr>history_dates := Some (sort (remdups (map fst (rows df))))\<rparr>
            in case optimize be (rows df) of
                 Inl e \<Rightarrow> (Some e, m1)
               | Inr pr \<Rightarrow> (None, m1\<lparr>predictor := Some pr\<rparr>)))"

text \<open>
  \<^verbatim>\<open>pd.date_range(start, periods = n, freq = 'M')\<close>: \<open>n\<close> month ends, the first one
  the end of the month of \<open>start\<close>.
\<close>

definition date_range_M :: "date \<Rightarrow> nat \<Rightarrow> date list" where
  "date_range_M start n = map (\<lambda>j. month_end (month_index start + j)) [0..<n]"

text \<open>
  \<^verbatim>\<open>make_future_dataframe(periods, freq = 'M')\<close>: the training dates, followed by
  the first \<open>periods\<close> month ends after the last of them. The library asks for one
  date more than it needs and drops the dates that are not after the last
  training date; \<open>latest h hs\<close> is \<^verbatim>\<open>history_dates.max()\<close> of the dates \<open>h # hs\<close>.
\<close>

definition latest :: "date \<Rightarrow> date list \<Rightarrow> date" where
  "latest h hs = fold max hs h"

definition make_future_dataframe :: "prophet \<Rightarrow> nat \<Rightarrow> exn + date list" where
  "make_future_dataframe m periods =
     (case history_dates m of
        None \<Rightarrow> Inl PlainException
      | Some [] \<Rightarrow> Inl ValueError
      | Some (h # hs) \<Rightarrow>
          (let last_date = latest h hs;
               dates = date_range_M last_date (periods + 1);
               dates = filter (\<lambda>d. last_date < d) dates;
               dates = take periods dates
           in Inr ((h # hs) @ dates)))"

text \<open>
  The dates that \<^verbatim>\<open>make_future_dataframe\<close> appends, in closed form:
  \<open>plus_month_ends d k\<close> is the \<open>k\<close>-th month end after the date \<open>d\<close>, for \<open>k\<close> from 1.
\<close>

definition plus_month_ends :: "date \<Rightarrow> nat \<Rightarrow> date" where
  "plus_month_ends d k =
     (if is_month_end d then month_end (month_index d + k) else month_end (month_index d + k - 1))"

text \<open>
  \<^verbatim>\<open>predict(future)\<close>: one row per date of \<open>future\<close>, in its order; an object whose
  parameters were never fitted raises.
\<close>

definition forecast_row :: "(date \<Rightarrow> estimate) \<Rightarrow> date \<Rightarrow> fc_row" where
  "forecast_row f d =
     \<lparr>ds = d, yhat = fst (f d), yhat_lower = fst (snd (f d)), yhat_upper = snd (snd (f d))\<rparr>"

definition predict :: "prophet \<Rightarrow> date list \<Rightarrow> exn + fc_row list" where
  "predict m future =
     (case predictor m of
        None \<Rightarrow> Inl PlainException
      | Some pr \<Rightarrow>
          (case pr future of
             Inl e \<Rightarrow> Inl e
           | Inr f \<Rightarrow> Inr (map (forecast_row f) future)))"

section \<open>TSAForecasting\<close>

text \<open>
  The object. \<open>data\<close> is \<^verbatim>\<open>self.data\<close> (None when the object was built without a
  dataset). \<^verbatim>\<open>__init__\<close> sets \<^verbatim>\<open>self.model\<close> and \<^verbatim>\<open>self.forecast\<close> to None; the
  attribute \<^verbatim>\<open>self.prophet_model\<close> exists only once \<^verbatim>\<open>fit_prophet_model\<close> has
  assigned it, and \<open>prophet_model = None\<close> stands for its absence.
\<close>

record tsa_forecasting =
  data :: "obs list option"
  model :: "prophet option"
  forecast :: "fc_row list option"
  prophet_model :: "prophet option"
  fc_log :: "log_entry list"

definition init :: "obs list option \<Rightarrow> tsa_forecasting" where
  "init input = \<lparr>data = input, model = None, forecast = None, prophet_model = None, fc_log = []\<rparr>"

text \<open>The argument \<^verbatim>\<open>data\<close> of the methods: a frame, or a dictionary of frames.\<close>

datatype data_arg = Frame frame | Dict "(string \<times> frame) list"

definition log_error :: "string \<Rightarrow> exn \<Rightarrow> tsa_forecasting \<Rightarrow> tsa_forecasting" where
  "log_error prefix e self = self\<lparr>fc_log := fc_log self @ [(prefix, e)]\<rparr>"

text \<open>\<^verbatim>\<open>data_organization\<close>: the monthly sums of Poland and of Germany.\<close>

definition data_organization ::
  "tsa_forecasting \<Rightarrow> (exn + (frame \<times> frame) option) \<times> tsa_forecasting" where
  "data_organization self =
     (case data self of
        None \<Rightarrow> (Inr None, log_error ''Could not organize data: '' TypeError self)
      | Some df \<Rightarrow>
          (let poland_data = select_country ''Poland'' df;
               germany_data = select_country ''Germany'' df;
               germany_data = groupby_sum germany_data;
               poland_data = groupby_sum poland_data
           in (Inr (Some (\<lparr>date_col = ''Date'', value_col = ''Sales'', rows = poland_data\<rparr>,
                          \<lparr>date_col = ''Date'', value_col = ''Sales'', rows = germany_data\<rparr>)),
               self)))"

text \<open>\<^verbatim>\<open>d[k]\<close> on a dictionary, and \<^verbatim>\<open>list(d.values())[0]\<close>.\<close>

definition dict_get :: "(string \<times> 'a) list \<Rightarrow> string \<Rightarrow> exn + 'a" where
  "dict_get d k = (case map_of d k of None \<Rightarrow> Inl KeyError | Some v \<Rightarrow> Inr v)"

definition first_value :: "(string \<times> 'a) list \<Rightarrow> exn + 'a" where
  "first_value d = (case d of [] \<Rightarrow> Inl IndexError | kv # _ \<Rightarrow> Inr (snd kv))"

definition default_params :: kwargs where
  "default_params =
     [(''yearly_seasonality'', PyBool True), (''weekly_seasonality'', PyBool False),
      (''daily_seasonality'', PyBool False), (''seasonality_mode'', PyStr ''multiplicative'')]"

text \<open>\<^verbatim>\<open>d.update(u)\<close>\<close>

definition dict_update :: "kwargs \<Rightarrow> kwargs \<Rightarrow> kwargs" where
  "dict_update d u = fold (\<lambda>kv. AList.update (fst kv) (snd kv)) u d"

text \<open>
  The body of the \<^verbatim>\<open>try\<close> of \<^verbatim>\<open>fit_prophet_model\<close>: the exception raised or the
  value returned, and the object after it. With a dictionary and no key the method
  lists \<^verbatim>\<open>self.data.keys()\<close> and returns None.
\<close>

definition fit_body ::
  "backend \<Rightarrow> tsa_forecasting \<Rightarrow> data_arg \<Rightarrow> string option \<Rightarrow> kwargs \<Rightarrow>
     (exn + prophet option) \<times> tsa_forecasting" where
  "fit_body be self d data_key prophet_params =
     (let params = dict_update default_params prophet_params;
          fit_data = (case d of
                        Frame f \<Rightarrow> Inr (Some f)
                      | Dict dd \<Rightarrow>
                          (case data_key of
                             None \<Rightarrow> (if data self = None then Inl AttributeError else Inr None)
                           | Some k \<Rightarrow> map_sum id Some (dict_get dd k)))
      in case fit_data of
           Inl e \<Rightarrow> (Inl e, self)
         | Inr None \<Rightarrow> (Inr None, self)
         | Inr (Some f) \<Rightarrow>
             (case new_model be params of
                Some e \<Rightarrow> (Inl e, self)
              | None \<Rightarrow>
                  (case prophet_fit be \<lparr>history_dates = None, predictor = None\<rparr> f of
                     (Some e, m) \<Rightarrow> (Inl e, self\<lparr>prophet_model := Some m\<rparr>)
                   | (None, m) \<Rightarrow> (Inr (Some m), self\<lparr>prophet_model := Some m\<rparr>))))"

text \<open>
  \<^verbatim>\<open>fit_prophet_model\<close>: the handler \<^verbatim>\<open>except Exception\<close> comes first and takes
  every exception of the body.
\<close>

definition fit_prophet_model ::
  "backend \<Rightarrow> tsa_forecasting \<Rightarrow> data_arg \<Rightarrow> string option \<Rightarrow> kwargs \<Rightarrow>
     (exn + prophet option) \<times> tsa_forecasting" where
  "fit_prophet_model be self d data_key prophet_params =
     (case fit_body be self d data_key prophet_params of
        (Inl e, self') \<Rightarrow> (Inr None, log_error ''Could not find model: '' e self')
      | (Inr r, self') \<Rightarrow> (Inr r, self'))"

text \<open>
  Lines 104 to 107 of \<^verbatim>\<open>forecast_sales\<close>: the historical data is the argument
  itself, or the entry of the dictionary under the key, or its first value when
  the key is None or empty.
\<close>

definition historical_frame :: "data_arg \<Rightarrow> string option \<Rightarrow> exn + frame" where
  "historical_frame d data_key =
     (case d of
        Frame f \<Rightarrow> Inr f
      | Dict dd \<Rightarrow>
          (case data_key of
             None \<Rightarrow> first_value dd
           | Some k \<Rightarrow> if k = [] then first_value dd else dict_get dd k))"

text \<open>
  The body of the \<^verbatim>\<open>try\<close> of \<^verbatim>\<open>forecast_sales\<close>. Reading \<^verbatim>\<open>self.prophet_model\<close>
  raises AttributeError while the attribute does not exist; no assignment ever
  stores None in it, so the branch of line 100 is never taken once it exists. The
  horizon is a natural number.
\<close>

definition forecast_body ::
  "tsa_forecasting \<Rightarrow> data_arg \<Rightarrow> nat \<Rightarrow> string option \<Rightarrow>
     (exn + fc_row list option) \<times> tsa_forecasting" where
  "forecast_body self d horizon_months data_key =
     (case prophet_model self of
        None \<Rightarrow> (Inl AttributeError, self)
      | Some m \<Rightarrow>
          (case historical_frame d data_key of
             Inl e \<Rightarrow> (Inl e, self)
           | Inr f \<Rightarrow>
               (case make_future_dataframe m horizon_months of
                  Inl e \<Rightarrow> (Inl e, self)
                | Inr future \<Rightarrow>
                    (case predict m future of
                       Inl e \<Rightarrow> (Inl e, self)
                     | Inr fc \<Rightarrow> (Inr (Some fc), self\<lparr>forecast := Some fc\<rparr>)))))"

definition forecast_sales ::
  "tsa_forecasting \<Rightarrow> data_arg \<Rightarrow> nat \<Rightarrow> string option \<Rightarrow>
     (exn + fc_row list option) \<times> tsa_forecasting" where
  "forecast_sales self d horizon_months data_key =
     (case forecast_body self d horizon_months data_key of
        (Inl e, self') \<Rightarrow> (Inr None, log_error ''Could not forecast: '' e self')
      | (Inr r, self') \<Rightarrow> (Inr r, self'))"

text \<open>
  Lines 196 to 198: the historical data is the argument itself, or the first value
  of the dictionary.
\<close>

definition first_frame :: "data_arg \<Rightarrow> exn + frame" where
  "first_frame d = (case d of Frame f \<Rightarrow> Inr f | Dict dd \<Rightarrow> first_value dd)"

text \<open>The dictionary that \<^verbatim>\<open>get_forecast_summary\<close> returns.\<close>

record summary =
  Total_Forecast_Sales :: real
  Average_Monthly_Sales :: real
  Min_Expected_Sales :: real
  Max_Expected_Sales :: real
  Sales_Growth_Rate :: "real option"

text \<open>
  Line 207: \<^verbatim>\<open>((a / b) - 1) * 100\<close> on two float64 scalars. Each of the three
  operations rounds its exact result; a division by zero and an overflow raise
  nothing and give an infinite value or NaN.
\<close>

definition growth_rate :: "real \<Rightarrow> real \<Rightarrow> real option" where
  "growth_rate a b =
     (if b = 0 then None
      else case f64 (a / b) of
             None \<Rightarrow> None
           | Some q \<Rightarrow> (case f64 (q - 1) of None \<Rightarrow> None | Some s \<Rightarrow> f64 (s * 100)))"

text \<open>
  The body of the \<^verbatim>\<open>try\<close> of \<^verbatim>\<open>get_forecast_summary\<close>. On an empty slice sum,
  mean, minimum and maximum raise nothing, and \<^verbatim>\<open>.iloc[-1]\<close> of line 207 raises
  IndexError; then comes the column \<^verbatim>\<open>y\<close> of the historical data (KeyError when
  the frame has none) and its last value.
\<close>

definition summary_body ::
  "tsa_forecasting \<Rightarrow> data_arg \<Rightarrow> int \<Rightarrow> exn + (summary \<times> fc_row list) option" where
  "summary_body self d perioDate =
     (case forecast self of
        None \<Rightarrow> Inr None
      | Some fc \<Rightarrow>
          (case first_frame d of
             Inl e \<Rightarrow> Inl e
           | Inr historical_data \<Rightarrow>
               (let n_historical = int (length (rows historical_data));
                    future_forecast = py_slice n_historical (n_historical + perioDate) fc
                in case future_forecast of
                     [] \<Rightarrow> Inl IndexError
                   | r # rs \<Rightarrow>
                       (if value_col historical_data \<noteq> ''y'' then Inl KeyError
                        else case iloc_last (map snd (rows historical_data)) of
                               Inl e \<Rightarrow> Inl e
                             | Inr last_y \<Rightarrow>
                                 Inr (Some
                                   (\<lparr>Total_Forecast_Sales = sum_list (map yhat future_forecast),
                                     Average_Monthly_Sales =
                                       sum_list (map yhat future_forecast) /
                                         real (length future_forecast),
                                     Min_Expected_Sales = fold min (map yhat_lower rs) (yhat_lower r),
                                     Max_Expected_Sales = fold max (map yhat_upper rs) (yhat_upper r),
                                     Sales_Growth_Rate =
                                       growth_rate (yhat (last future_forecast)) last_y\<rparr>,
                                    future_forecast))))))"

text \<open>
  \<^verbatim>\<open>get_forecast_summary\<close>: the handlers are \<^verbatim>\<open>except FileNotFoundError\<close>, then
  \<^verbatim>\<open>except Exception\<close>; both log and fall through to the end of the method.
\<close>

definition get_forecast_summary ::
  "tsa_forecasting \<Rightarrow> data_arg \<Rightarrow> int \<Rightarrow>
     (exn + (summary \<times> fc_row list) option) \<times> tsa_forecasting" where
  "get_forecast_summary self d perioDate =
     (case summary_body self d perioDate of
        Inl e \<Rightarrow>
          (Inr None,
           if e = FileNotFoundError then log_error ''Could not find file: '' e self
           else log_error ''Could not summarize forecast: '' e self)
      | Inr r \<Rightarrow> (Inr r, self))"

section \<open>Notions used in the statements\<close>

text \<open>
  The \<^verbatim>\<open>Sales\<close> values of the rows of a dataset that match a country and a date,
  and of those that match a date.
\<close>

definition matching_sales :: "string \<Rightarrow> date \<Rightarrow> obs list \<Rightarrow> real list" where
  "matching_sales c d df = map Sales (filter (\<lambda>r. Country r = c \<and> Date r = d) df)"

definition date_sales :: "date \<Rightarrow> obs list \<Rightarrow> real list" where
  "date_sales d df = map Sales (filter (\<lambda>r. Date r = d) df)"

text \<open>The series of a frame of \<^verbatim>\<open>moving_average_analysis\<close>: its dates with their values.\<close>

definition ma_series :: "ma_row list \<Rightarrow> (date \<times> real) list" where
  "ma_series t = map (\<lambda>r. (ma_date r, ma_sales r)) t"

text \<open>
  No model has been fitted in a session: the attribute \<^verbatim>\<open>prophet_model\<close> does not
  exist, or holds an object whose fit did not complete.
\<close>

definition not_fitted :: "tsa_forecasting \<Rightarrow> bool" where
  "not_fitted self = (case prophet_model self of None \<Rightarrow> True | Some m \<Rightarrow> predictor m = None)"



subsection \<open>Example data\<close>

definition example_rows :: "obs list" where
  "example_rows =
     [\<lparr>Country = ''Germany'', Date = (2020, 1, 1), Sales = 10\<rparr>,
      \<lparr>Country = ''Germany'', Date = (2020, 1, 1), Sales = 20\<rparr>,
      \<lparr>Country = ''Poland'', Date = (2020, 2, 1), Sales = 7\<rparr>]"

text \<open>Five months of one country, with the sales 10, 20, 30, 40 and 50.\<close>

definition five_months :: "obs list" where
  "five_months =
     map (\<lambda>m. \<lparr>Country = ''Germany'', Date = (2020, m, 1), Sales = 10 * real m\<rparr>) [1, 2, 3, 4, 5]"

text \<open>Ten months of 2020, one row each.\<close>

definition ten_months :: "obs list" where
  "ten_months =
     map (\<lambda>m. \<lparr>Country = ''Germany'', Date = (2020, m, 1), Sales = 5\<rparr>) [1, 2, 3, 4, 5, 6, 7, 8, 9, 10]"

text \<open>Two years, one row per month, the sales in a month being its number.\<close>

definition two_years :: "obs list" where
  "two_years =
     map (\<lambda>m. \<lparr>Country = ''Germany'', Date = (2019, m, 1), Sales = real m\<rparr>)
       [1, 2, 3, 4, 5, 6, 7, 8, 9, 10, 11, 12] @
     map (\<lambda>m. \<lparr>Country = ''Germany'', Date = (2020, m, 1), Sales = real m\<rparr>)
       [1, 2, 3, 4, 5, 6, 7, 8, 9, 10, 11, 12]"

definition example_history :: frame where
  "example_history =
     \<lparr>date_col = ''ds'', value_col = ''y'',
      rows = [((2020, 11, 1), 90), ((2020, 12, 1), 100)]\<rparr>"

definition example_forecast :: "fc_row list" where
  "example_forecast =
     [\<lparr>ds = (2020, 11, 1), yhat = 91, yhat_lower = 85, yhat_upper = 95\<rparr>,
      \<lparr>ds = (2020, 12, 1), yhat = 99, yhat_lower = 94, yhat_upper = 105\<rparr>,
      \<lparr>ds = (2020, 12, 31), yhat = 110, yhat_lower = 100, yhat_upper = 119\<rparr>,
      \<lparr>ds = (2021, 1, 31), yhat = 120, yhat_lower = 105, yhat_upper = 133\<rparr>]"

text \<open>A session that holds the forecast above.\<close>

definition forecasted_session :: tsa_forecasting where
  "forecasted_session = (init None)\<lparr>forecast := Some example_forecast\<rparr>"

text \<open>A back end whose fitted models predict 100 with the bounds 90 and 110 at every date.\<close>

definition example_predictor :: predictor where
  "example_predictor dates = Inr (\<lambda>d. (100, 90, 110))"

definition example_backend :: backend where
  "example_backend = \<lparr>new_model = (\<lambda>kw. None), optimize = (\<lambda>r. Inr example_predictor)\<rparr>"


definition fitted_session :: tsa_forecasting where
  "fitted_session =
     (init None)\<lparr>prophet_model :=
       Some \<lparr>history_dates = Some [(2020, 11, 1), (2020, 12, 1)],
             predictor = Some example_predictor\<rparr>\<rparr>"

section \<open>Exceptions never leave the forecasting methods\<close>

lemma fit_prophet_model_returns: "\<exists>r. fst (fit_prophet_model be self d k kw) = Inr r"
  by (simp add: fit_prophet_model_def split: prod.splits sum.splits)

lemma forecast_sales_returns: "\<exists>r. fst (forecast_sales self d h k) = Inr r"
  by (simp add: forecast_sales_def split: prod.splits sum.splits)

lemma get_forecast_summary_returns: "\<exists>r. fst (get_forecast_summary self d p) = Inr r"
  by (simp add: get_forecast_summary_def split: sum.splits)

text \<open>
  C10. \<^verbatim>\<open>fit_prophet_model\<close>, \<^verbatim>\<open>forecast_sales\<close> and \<^verbatim>\<open>get_forecast_summary\<close> never
  let an exception reach the caller, whatever the object, the arguments and the
  behaviour of the library: an exception raised in the body of the \<^verbatim>\<open>try\<close> is
  logged and the method returns None, the value it also returns when a guard of
  the body ends the call without a result.
\<close>

theorem forecasting_never_raises:
  "(\<forall>e. fst (fit_prophet_model be self d k kw) \<noteq> Inl e) \<and>
   (\<forall>e. fst (forecast_sales self d h k) \<noteq> Inl e) \<and>
   (\<forall>e. fst (get_forecast_summary self d p) \<noteq> Inl e) \<and>
   (\<forall>e s. fit_body be self d k kw = (Inl e, s) \<longrightarrow>
      fit_prophet_model be self d k kw =
        (Inr None, s\<lparr>fc_log := fc_log s @ [(''Could not find model: '', e)]\<rparr>)) \<and>
   (\<forall>e s. forecast_body self d h k = (Inl e, s) \<longrightarrow>
      forecast_sales self d h k =
        (Inr None, s\<lparr>fc_log := fc_log s @ [(''Could not forecast: '', e)]\<rparr>)) \<and>
   (\<forall>e. summary_body self d p = Inl e \<longrightarrow>
      (\<exists>msg. get_forecast_summary self d p =
        (Inr None, self\<lparr>fc_log := fc_log self @ [(msg, e)]\<rparr>)))"
proof (intro conjI allI impI)
  fix e
  show "fst (fit_prophet_model be self d k kw) \<noteq> Inl e"
    using fit_prophet_model_returns [of be self d k kw] by auto
  show "fst (forecast_sales self d h k) \<noteq> Inl e"
    using forecast_sales_returns [of self d h k] by auto
  show "fst (get_forecast_summary self d p) \<noteq> Inl e"
    using get_forecast_summary_returns [of self d p] by auto
next
  fix e s
  assume "fit_body be self d k kw = (Inl e, s)"
  then show "fit_prophet_model be self d k kw =
      (Inr None, s\<lparr>fc_log := fc_log s @ [(''Could not find model: '', e)]\<rparr>)"
    by (simp add: fit_prophet_model_def log_error_def)
next
  fix e s
  assume "forecast_body self d h k = (Inl e, s)"
  then show "forecast_sales self d h k =
      (Inr None, s\<lparr>fc_log := fc_log s @ [(''Could not forecast: '', e)]\<rparr>)"
    by (simp add: forecast_sales_def log_error_def)
next
  fix e
  assume "summary_body self d p = Inl e"
  then show "\<exists>msg. get_forecast_summary self d p =
      (Inr None, self\<lparr>fc_log := fc_log self @ [(msg, e)]\<rparr>)"
    by (cases "e = FileNotFoundError") (auto simp add: get_forecast_summary_def log_error_def)
qed

text \<open>
  The theorem at work: a dictionary without the requested key makes the body of
  \<^verbatim>\<open>fit_prophet_model\<close> raise KeyError; the caller gets None, as it does from the
  call with no key, which raises nothing.
\<close>

theorem forecasting_never_raises_witness:
  "fit_body example_backend (init (Some example_rows)) (Dict []) (Some ''Germany'') []
     = (Inl KeyError, init (Some example_rows)) \<and>
   fit_prophet_model example_backend (init (Some example_rows)) (Dict []) (Some ''Germany'') []
     = (Inr None,
        (init (Some example_rows))\<lparr>fc_log := [(''Could not find model: '', KeyError)]\<rparr>) \<and>
   fst (fit_prophet_model example_backend (init (Some example_rows)) (Dict []) None []) = Inr None"
proof -
  have b: "fit_body example_backend (init (Some example_rows)) (Dict []) (Some ''Germany'') []
     = (Inl KeyError, init (Some example_rows))"
    by (simp add: fit_body_def dict_get_def Let_def)
  have n: "fst (fit_prophet_model example_backend (init (Some example_rows)) (Dict []) None []) = Inr None"
    by (simp add: fit_prophet_model_def fit_body_def init_def Let_def)
  have l: "fc_log (init (Some example_rows)) = []"
    by (simp add: init_def)
  show ?thesis
    using b n l
      forecasting_never_raises [of example_backend "init (Some example_rows)" "Dict []"
        "Some ''Germany''" "[]" 0 0]
    by simp
qed

section \<open>Calls out of sequence\<close>

lemma forecast_sales_not_fitted:
  assumes "not_fitted self"
  shows "\<exists>e. forecast_sales self d h k = (Inr None, log_error ''Could not forecast: '' e self)"
  using assms
  by (auto simp add: not_fitted_def forecast_sales_def forecast_body_def predict_def
      split: option.splits sum.splits)

lemma get_forecast_summary_no_forecast:
  "forecast self = None \<Longrightarrow> get_forecast_summary self d p = (Inr None, self)"
  by (simp add: get_forecast_summary_def summary_body_def)

text \<open>
  C1, as stated, fails: in a new session \<^verbatim>\<open>forecast_sales\<close> raises nothing and
  returns None (reading the attribute \<^verbatim>\<open>prophet_model\<close>, which \<^verbatim>\<open>__init__\<close> does
  not create, raises AttributeError inside the \<^verbatim>\<open>try\<close>), and so does
  \<^verbatim>\<open>get_forecast_summary\<close>.
\<close>

theorem out_of_sequence_counterexample:
  "forecast_sales (init None) (Frame example_history) 12 None
     = (Inr None, (init None)\<lparr>fc_log := [(''Could not forecast: '', AttributeError)]\<rparr>) \<and>
   fst (forecast_sales (init None) (Frame example_history) 12 None)
     \<noteq> Inl (OtherError ''ModelNotFitError'') \<and>
   get_forecast_summary (init None) (Frame example_history) 12 = (Inr None, init None) \<and>
   fst (get_forecast_summary (init None) (Frame example_history) 12)
     \<noteq> Inl (OtherError ''ForecastNotAvailableError'')"
  by (simp add: forecast_sales_def forecast_body_def get_forecast_summary_def summary_body_def
      init_def log_error_def)

text \<open>
  C1, amended. In a session where no model has been fitted \<^verbatim>\<open>forecast_sales\<close> raises
  no exception: it returns None and leaves the model and the forecast of the
  session as they were. In a session without a forecast \<^verbatim>\<open>get_forecast_summary\<close>
  raises no exception: it returns None and leaves the session unchanged. No partial
  result is returned.
\<close>

theorem out_of_sequence_returns_None:
  "(not_fitted self \<longrightarrow>
      fst (forecast_sales self d h k) = Inr None \<and>
      prophet_model (snd (forecast_sales self d h k)) = prophet_model self \<and>
      forecast (snd (forecast_sales self d h k)) = forecast self) \<and>
   (forecast self = None \<longrightarrow> get_forecast_summary self d p = (Inr None, self))"
proof (intro conjI impI)
  assume "not_fitted self"
  then obtain e where
    "forecast_sales self d h k = (Inr None, log_error ''Could not forecast: '' e self)"
    using forecast_sales_not_fitted [of self d h k] by blast
  then show "fst (forecast_sales self d h k) = Inr None"
    and "prophet_model (snd (forecast_sales self d h k)) = prophet_model self"
    and "forecast (snd (forecast_sales self d h k)) = forecast self"
    by (simp_all add: log_error_def)
next
  assume "forecast self = None"
  then show "get_forecast_summary self d p = (Inr None, self)"
    by (rule get_forecast_summary_no_forecast)
qed

theorem out_of_sequence_returns_None_witness:
  "not_fitted (init None) \<and> forecast (init None) = None \<and>
   fst (forecast_sales (init None) (Frame example_history) 12 None) = Inr None \<and>
   prophet_model (snd (forecast_sales (init None) (Frame example_history) 12 None)) = None \<and>
   forecast (snd (forecast_sales (init None) (Frame example_history) 12 None)) = None \<and>
   get_forecast_summary (init None) (Frame example_history) 12 = (Inr None, init None)"
proof -
  have a: "not_fitted (init None)" by (simp add: not_fitted_def init_def)
  have b: "forecast (init None) = None" by (simp add: init_def)
  have c: "prophet_model (init None) = None" by (simp add: init_def)
  show ?thesis
    using a b c out_of_sequence_returns_None [of "init None" "Frame example_history" 12 None 12]
    by simp
qed

section \<open>The rounding error of float64 operations\<close>

lemma round_half_even_error: "\<bar>of_int (round_half_even y) - y\<bar> \<le> 1 / 2"
  unfolding round_half_even_def Let_def by (auto; linarith)

lemma binade_up_below: "2 powi e \<le> a \<Longrightarrow> 2 powi (binade_up n e a) \<le> a"
  by (induction n arbitrary: e) simp_all

lemma binade_down_below: "2 powi (binade_down n e a) \<le> a \<or> binade_down n e a = e - int n"
proof (induction n arbitrary: e)
  case 0
  then show ?case by simp
next
  case (Suc n)
  show ?case
  proof (cases "a < 2 powi e")
    case True
    then show ?thesis using Suc.IH [of "e - 1"] by auto
  next
    case False
    then show ?thesis by simp
  qed
qed

lemma binade_below: "2 powi (binade x) \<le> \<bar>x\<bar> \<or> binade x = - 1022"
proof (cases "1 \<le> \<bar>x\<bar>")
  case True
  then have "2 powi (binade_up 1100 0 \<bar>x\<bar>) \<le> \<bar>x\<bar>"
    by (intro binade_up_below) simp
  then show ?thesis using True by (simp add: binade_def)
next
  case False
  then show ?thesis
    using binade_down_below [of 1022 0 "\<bar>x\<bar>"] by (simp add: binade_def)
qed

lemma binade_up_numeral:
  "binade_up (numeral k) e a =
     (if 2 powi (e + 1) \<le> a then binade_up (pred_numeral k) (e + 1) a else e)"
  by (simp add: numeral_eq_Suc)

lemma binade_down_numeral:
  "binade_down (numeral k) e a =
     (if a < 2 powi e then binade_down (pred_numeral k) (e - 1) a else e)"
  by (simp add: numeral_eq_Suc)

lemma round64_error: "\<bar>round64 x - x\<bar> \<le> \<bar>x\<bar> / 2 ^ 53 + 2 powi (- 1075)"
proof (cases "x = 0")
  case True
  then show ?thesis by (simp add: round64_def)
next
  case False
  define e where "e = binade x"
  define m where "m = round_half_even (x * 2 powi (52 - e))"
  define y where "y = round64 x"
  have y: "y = of_int m * 2 powi (e - 52)"
    using False by (simp add: y_def round64_def Let_def e_def m_def)
  have p: "(0::real) < 2 powi (e - 52)" by (rule zero_less_power_int) simp
  have c: "(2::real) powi (52 - e) * 2 powi (e - 52) = 1"
    by (simp add: power_int_add [symmetric])
  have "\<bar>of_int m - x * 2 powi (52 - e)\<bar> \<le> 1 / 2"
    unfolding m_def by (rule round_half_even_error)
  then have "\<bar>of_int m - x * 2 powi (52 - e)\<bar> * 2 powi (e - 52) \<le> 1 / 2 * 2 powi (e - 52)"
    using p by (intro mult_right_mono) simp_all
  moreover have "\<bar>of_int m - x * 2 powi (52 - e)\<bar> * 2 powi (e - 52) = \<bar>y - x\<bar>"
  proof -
    have "(of_int m - x * 2 powi (52 - e)) * 2 powi (e - 52) = y - x * (2 powi (52 - e) * 2 powi (e - 52))"
      unfolding y by (simp add: algebra_simps)
    then have "(of_int m - x * 2 powi (52 - e)) * 2 powi (e - 52) = y - x"
      unfolding c by simp
    then have "\<bar>y - x\<bar> = \<bar>of_int m - x * 2 powi (52 - e)\<bar> * \<bar>2 powi (e - 52)\<bar>"
      by (simp only: abs_mult [symmetric])
    then show ?thesis using p by simp
  qed
  moreover have "1 / 2 * (2::real) powi (e - 52) = 2 powi (e - 53)"
  proof -
    have "(2::real) powi (e - 52) = 2 powi ((e - 53) + 1)" by simp
    also have "\<dots> = 2 powi (e - 53) * 2" by (rule power_int_add_1) simp
    finally show ?thesis by simp
  qed
  ultimately have b: "\<bar>y - x\<bar> \<le> 2 powi (e - 53)" by simp
  have "\<bar>y - x\<bar> \<le> \<bar>x\<bar> / 2 ^ 53 + 2 powi (- 1075)"
  proof (cases "2 powi e \<le> \<bar>x\<bar>")
    case True
    moreover have "(2::real) powi (e - 53) = 2 powi e / 2 ^ 53"
      by (simp add: power_int_diff)
    ultimately have "2 powi (e - 53) \<le> \<bar>x\<bar> / 2 ^ 53"
      by (simp add: divide_right_mono)
    moreover have "(0::real) \<le> 2 powi (- 1075)" by simp
    ultimately show ?thesis using b by linarith
  next
    case False
    then have "e = - 1022" using binade_below [of x] by (simp add: e_def)
    then have "(2::real) powi (e - 53) = 2 powi (- 1075)" by simp
    moreover have "0 \<le> \<bar>x\<bar> / 2 ^ 53" by simp
    ultimately show ?thesis using b by linarith
  qed
  then show ?thesis by (simp add: y_def)
qed

lemma float_tiny: "(2::real) powi (- 1075) \<le> 1" 
proof -
  have "(2::real) powi (- 1075) \<le> 2 powi 0" by (rule power_int_increasing) simp_all
  then show ?thesis by simp
qed

lemma f64_defined:
  assumes "\<bar>x\<bar> \<le> 2 ^ 1020"
  shows "f64 x = Some (round64 x)"
proof -
  have "\<bar>round64 x\<bar> \<le> \<bar>x\<bar> + \<bar>round64 x - x\<bar>" by linarith
  also have "\<dots> \<le> \<bar>x\<bar> + (\<bar>x\<bar> / 2 ^ 53 + 2 powi (- 1075))"
    using round64_error [of x] by linarith
  also have "\<dots> \<le> \<bar>x\<bar> + (\<bar>x\<bar> + 1)"
    using float_tiny by (simp add: field_simps)
  also have "\<dots> < 2 ^ 1024" using assms by simp
  finally show ?thesis by (simp add: f64_def)
qed

lemma growth_rate_error:
  assumes "b \<noteq> 0" and "\<bar>a / b\<bar> \<le> 2 ^ 1000"
  shows "\<exists>r. growth_rate a b = Some r \<and>
     \<bar>r - (a / b - 1) * 100\<bar> \<le> (\<bar>a / b\<bar> + \<bar>a / b - 1\<bar>) / 2 ^ 44 + 2 powi (- 1065)"
proof -
  define q where "q = a / b"
  define t :: real where "t = 2 powi (- 1075)"
  define q1 where "q1 = round64 q"
  define s1 where "s1 = round64 (q1 - 1)"
  define r1 where "r1 = round64 (s1 * 100)"
  define Q where "Q = \<bar>q\<bar>"
  define P where "P = \<bar>q - 1\<bar>"
  define A where "A = \<bar>q1 - q\<bar>"
  define B where "B = \<bar>s1 - (q1 - 1)\<bar>"
  define C where "C = \<bar>r1 - s1 * 100\<bar>"
  define S where "S = \<bar>q1 - 1\<bar>"
  define T where "T = \<bar>s1\<bar>"
  have t0: "0 \<le> t" and t1: "t \<le> 1" using float_tiny by (simp_all add: t_def)
  have nn: "0 \<le> Q" "0 \<le> P" "0 \<le> A" "0 \<le> B" "0 \<le> C" "0 \<le> S" "0 \<le> T"
    by (simp_all add: Q_def P_def A_def B_def C_def S_def T_def)
  have e1: "A \<le> Q / 9007199254740992 + t"
    using round64_error [of q] by (simp add: A_def Q_def q1_def t_def)
  have e2: "B \<le> S / 9007199254740992 + t"
    using round64_error [of "q1 - 1"] by (simp add: B_def S_def s1_def t_def)
  have e3: "C \<le> (T * 100) / 9007199254740992 + t"
    using round64_error [of "s1 * 100"] by (simp add: C_def T_def r1_def t_def abs_mult)
  have tS: "S \<le> P + A" unfolding S_def P_def A_def by linarith
  have tT: "T \<le> S + B" unfolding T_def S_def B_def by linarith
  have Qb: "Q \<le> 2 ^ 1000" using assms(2) by (simp add: q_def Q_def)
  have Pb: "P \<le> Q + 1" unfolding P_def Q_def by linarith
  have d1: "f64 q = Some q1"
    unfolding q1_def using Qb by (intro f64_defined) (simp add: Q_def)
  have "\<bar>q1 - 1\<bar> \<le> 2 ^ 1020"
    using e1 tS Pb Qb t1 nn unfolding S_def [symmetric] by simp
  then have d2: "f64 (q1 - 1) = Some s1"
    unfolding s1_def by (rule f64_defined)
  have "T * 100 \<le> 2 ^ 1020"
    using e1 e2 tS tT Pb Qb t1 nn by simp
  then have "\<bar>s1 * 100\<bar> \<le> 2 ^ 1020"
    by (simp add: T_def abs_mult)
  then have d3: "f64 (s1 * 100) = Some r1"
    unfolding r1_def by (rule f64_defined)
  have g: "growth_rate a b = Some r1"
    using assms(1) d1 d2 d3 by (simp add: growth_rate_def q_def)
  have "r1 - (q - 1) * 100 = (r1 - s1 * 100) + 100 * ((s1 - (q1 - 1)) + (q1 - q))"
    by simp
  then have "\<bar>r1 - (q - 1) * 100\<bar> \<le> \<bar>r1 - s1 * 100\<bar> + \<bar>100 * ((s1 - (q1 - 1)) + (q1 - q))\<bar>"
    by (simp only: abs_triangle_ineq)
  also have "\<bar>100 * ((s1 - (q1 - 1)) + (q1 - q))\<bar> = 100 * \<bar>(s1 - (q1 - 1)) + (q1 - q)\<bar>"
    by (simp only: abs_mult abs_numeral)
  also have "\<bar>(s1 - (q1 - 1)) + (q1 - q)\<bar> \<le> B + A"
    unfolding B_def A_def by (rule abs_triangle_ineq)
  finally have "\<bar>r1 - (q - 1) * 100\<bar> \<le> C + 100 * (B + A)"
    by (simp add: C_def)
  also have "\<dots> \<le> 400 * (Q / 9007199254740992) + 300 * (P / 9007199254740992) + 1024 * t"
  proof -
    define K :: real where "K = 9007199254740992"
    have K: "1 \<le> K" by (simp add: K_def)
    have le: "x / K \<le> x" if "0 \<le> x" for x
      using that by (simp add: K_def)
    have mono: "x / K \<le> y / K" if "x \<le> y" for x y
      using that K by (simp add: divide_right_mono)
    define p where "p = P / K"
    define k where "k = Q / K"
    have pk: "0 \<le> p" "0 \<le> k" using nn K by (simp_all add: p_def k_def)
    have a: "A \<le> k + t" using e1 by (simp add: k_def K_def)
    have s: "S \<le> P + k + t" using tS a by linarith
    have "S / K \<le> (P + k + t) / K" using s by (rule mono)
    also have "\<dots> = p + k / K + t / K" by (simp add: p_def add_divide_distrib)
    also have "\<dots> \<le> p + k + t" using le [OF pk(2)] le [OF t0] by linarith
    finally have sk: "S / K \<le> p + k + t" .
    have b: "B \<le> p + k + 2 * t" using e2 sk by (simp add: K_def)
    have tt: "T \<le> P + p + 2 * k + 3 * t" using tT s b by linarith
    have "T / K \<le> (P + p + 2 * k + 3 * t) / K" using tt by (rule mono)
    also have "\<dots> = p + p / K + 2 * (k / K) + 3 * (t / K)"
      by (simp add: p_def add_divide_distrib)
    also have "\<dots> \<le> p + p + 2 * k + 3 * t"
      using le [OF pk(1)] le [OF pk(2)] le [OF t0] by linarith
    finally have tk: "T / K \<le> 2 * p + 2 * k + 3 * t" by simp
    have "C \<le> 100 * (T / K) + t" using e3 by (simp add: K_def)
    then have c: "C \<le> 200 * p + 200 * k + 301 * t" using tk by linarith
    have "C + 100 * (B + A) \<le> 400 * k + 300 * p + 1024 * t"
      using a b c t0 by argo
    then show ?thesis by (simp add: p_def k_def K_def)
  qed
  also have "\<dots> \<le> (Q + P) / 2 ^ 44 + 1024 * t"
    using nn by (simp add: field_simps)
  also have "1024 * t = 2 powi (- 1065)"
  proof -
    have "(2::real) powi (- 1065) = 2 powi (10 + (- 1075))" by simp
    also have "\<dots> = 2 powi 10 * 2 powi (- 1075)" by (rule power_int_add) simp
    finally show ?thesis by (simp add: t_def)
  qed
  finally show ?thesis using g by (simp add: q_def Q_def P_def)
qed


lemma round64_quotient: "round64 (120 / 100) = 5404319552844595 / 4503599627370496"
  by (simp add: round64_def binade_def binade_up_numeral round_half_even_def Let_def)

lemma round64_difference:
  "round64 (5404319552844595 / 4503599627370496 - 1) = 900719925474099 / 4503599627370496"
  by (simp add: round64_def binade_def binade_down_numeral round_half_even_def Let_def)

lemma round64_product:
  "round64 (900719925474099 / 4503599627370496 * 100) = 5629499534213119 / 281474976710656"
  by (simp add: round64_def binade_def binade_up_numeral round_half_even_def Let_def)

lemma f64_finite: "\<bar>y\<bar> < 2 ^ 1024 \<Longrightarrow> round64 x = y \<Longrightarrow> f64 x = Some y"
  by (simp add: f64_def)

lemma growth_rate_120_100: "growth_rate 120 100 = Some (5629499534213119 / 281474976710656)"
proof -
  have d1: "f64 (120 / 100) = Some (5404319552844595 / 4503599627370496)"
    by (rule f64_finite [OF _ round64_quotient]) simp
  have d2: "f64 (5404319552844595 / 4503599627370496 - 1)
      = Some (900719925474099 / 4503599627370496)"
    by (rule f64_finite [OF _ round64_difference]) simp
  have d3: "f64 (900719925474099 / 4503599627370496 * 100)
      = Some (5629499534213119 / 281474976710656)"
    by (rule f64_finite [OF _ round64_product]) simp
  show ?thesis
    unfolding growth_rate_def by (simp only: d1 d2 d3 option.simps) simp
qed

section \<open>The summary of a forecast\<close>

lemma py_slice_empty: "p \<le> 0 \<Longrightarrow> 0 \<le> int n + p \<Longrightarrow> py_slice (int n) (int n + p) xs = []"
  by (simp add: py_slice_def slice_bound_def Let_def)

lemma py_slice_to_end:
  assumes "int (length xs) \<le> int n + p"
  shows "py_slice (int n) (int n + p) xs = drop n xs"
proof -
  have "0 \<le> int n + p" and "length xs \<le> nat (int n + p)"
    using assms by linarith+
  then have hi: "slice_bound (length xs) (int n + p) = length xs"
    by (simp add: slice_bound_def)
  have lo: "slice_bound (length xs) (int n) = min (length xs) n"
    by (simp add: slice_bound_def)
  show ?thesis
    unfolding py_slice_def Let_def hi lo by (cases "n \<le> length xs") (simp_all add: min_def)
qed

text \<open>
  C8, as stated, fails: with a forecast in the session and the horizon 0 the
  method raises nothing. The slice of the forecast is empty, \<^verbatim>\<open>.iloc[-1]\<close> raises
  IndexError inside the \<^verbatim>\<open>try\<close>, and the method logs it and returns None.
\<close>

theorem empty_horizon_counterexample:
  "get_forecast_summary forecasted_session (Frame example_history) 0
     = (Inr None,
        forecasted_session\<lparr>fc_log := [(''Could not summarize forecast: '', IndexError)]\<rparr>) \<and>
   fst (get_forecast_summary forecasted_session (Frame example_history) 0)
     \<noteq> Inl (OtherError ''EmptyHorizonError'')"
  by (simp add: get_forecast_summary_def summary_body_def first_frame_def forecasted_session_def
      example_history_def example_forecast_def init_def log_error_def py_slice_def
      slice_bound_def Let_def)

text \<open>
  C8, amended. With a forecast in the session and a horizon \<open>p \<le> 0\<close> that does not
  reach below the number \<open>n\<close> of historical rows (\<open>0 \<le> n + p\<close>; the horizon 0 is the
  case at hand), \<^verbatim>\<open>get_forecast_summary\<close> returns no summary and raises no
  exception: it returns None and logs the IndexError of the empty slice.
\<close>

theorem empty_horizon_returns_None:
  assumes "forecast self = Some fc" and "first_frame d = Inr h"
    and "p \<le> 0" and "0 \<le> int (length (rows h)) + p"
  shows "get_forecast_summary self d p =
     (Inr None, self\<lparr>fc_log := fc_log self @ [(''Could not summarize forecast: '', IndexError)]\<rparr>)"
  using assms py_slice_empty [of p "length (rows h)" fc]
  by (simp add: get_forecast_summary_def summary_body_def Let_def log_error_def)

theorem empty_horizon_returns_None_witness:
  "forecast forecasted_session = Some example_forecast \<and>
   first_frame (Frame example_history) = Inr example_history \<and>
   (-1 :: int) \<le> 0 \<and> 0 \<le> int (length (rows example_history)) + (-1) \<and>
   get_forecast_summary forecasted_session (Frame example_history) (-1) =
     (Inr None,
      forecasted_session\<lparr>fc_log := fc_log forecasted_session @
        [(''Could not summarize forecast: '', IndexError)]\<rparr>)"
proof -
  have a: "forecast forecasted_session = Some example_forecast"
    by (simp add: forecasted_session_def)
  have b: "first_frame (Frame example_history) = Inr example_history"
    by (simp add: first_frame_def)
  have c: "0 \<le> int (length (rows example_history)) + (-1)"
    by (simp add: example_history_def)
  show ?thesis
    using a b c empty_horizon_returns_None [OF a b _ c] by simp
qed

text \<open>
  Below the number of historical rows a negative horizon wraps around, as a
  negative bound of a Python slice does: with 2 historical rows and a forecast of 4
  rows the horizon -3 selects the third row, and a summary is returned.
\<close>

lemma negative_horizon_wraps:
  "\<exists>sm. fst (get_forecast_summary forecasted_session (Frame example_history) (-3)) =
     Inr (Some (sm,
       [\<lparr>ds = (2020, 12, 31), yhat = 110, yhat_lower = 100, yhat_upper = 119\<rparr>]))"
  by (simp add: get_forecast_summary_def summary_body_def first_frame_def forecasted_session_def
      example_history_def example_forecast_def init_def py_slice_def slice_bound_def
      iloc_last_def Let_def)

lemma summary_returned:
  assumes "forecast self = Some fc" and "first_frame d = Inr h" and "value_col h = ''y''"
    and "rows h \<noteq> []"
    and "future = py_slice (int (length (rows h))) (int (length (rows h)) + p) fc"
    and "future \<noteq> []"
  shows "\<exists>sm. get_forecast_summary self d p = (Inr (Some (sm, future)), self) \<and>
     Sales_Growth_Rate sm = growth_rate (yhat (last future)) (snd (last (rows h)))"
proof -
  obtain r rs where f: "py_slice (int (length (rows h))) (int (length (rows h)) + p) fc = r # rs"
    using assms(5,6) by (metis neq_Nil_conv)
  have "get_forecast_summary self d p =
     (Inr (Some (\<lparr>Total_Forecast_Sales = sum_list (map yhat future),
          Average_Monthly_Sales = sum_list (map yhat future) / real (length future),
          Min_Expected_Sales = fold min (map yhat_lower rs) (yhat_lower r),
          Max_Expected_Sales = fold max (map yhat_upper rs) (yhat_upper r),
          Sales_Growth_Rate = growth_rate (yhat (last future)) (snd (last (rows h)))\<rparr>,
        future)), self)"
    using assms(1-4) f assms(5)
    by (simp add: get_forecast_summary_def summary_body_def Let_def iloc_last_def last_map)
  then show ?thesis by simp
qed

text \<open>
  C6, as stated, fails in its example: with the last historical value 100 and the
  last future point estimate 120 the summary reports the float64 result of
  \<^verbatim>\<open>((120 / 100) - 1) * 100\<close>, which is \<open>20 - 2 ^ (- 48)\<close> (printed
  19.999999999999996) and not 20.
\<close>

theorem growth_rate_counterexample:
  "snd (last (rows example_history)) = 100 \<and>
   yhat (last (drop 2 example_forecast)) = 120 \<and>
   fst (get_forecast_summary forecasted_session (Frame example_history) 2) =
     Inr (Some (\<lparr>Total_Forecast_Sales = 230, Average_Monthly_Sales = 115,
                  Min_Expected_Sales = 100, Max_Expected_Sales = 133,
                  Sales_Growth_Rate = Some (5629499534213119 / 281474976710656)\<rparr>,
                drop 2 example_forecast)) \<and>
   (5629499534213119 / 281474976710656 :: real) = 20 - 1 / 2 ^ 48 \<and>
   (5629499534213119 / 281474976710656 :: real) \<noteq> 20"
proof -
  have "fst (get_forecast_summary forecasted_session (Frame example_history) 2) =
     Inr (Some (\<lparr>Total_Forecast_Sales = 230, Average_Monthly_Sales = 115,
                  Min_Expected_Sales = 100, Max_Expected_Sales = 133,
                  Sales_Growth_Rate = growth_rate 120 100\<rparr>,
                drop 2 example_forecast))"
    by (simp add: get_forecast_summary_def summary_body_def first_frame_def
        forecasted_session_def example_history_def example_forecast_def init_def py_slice_def
        slice_bound_def iloc_last_def Let_def)
  then show ?thesis
    unfolding growth_rate_120_100 by (simp add: example_history_def example_forecast_def)
qed

text \<open>
  C6, amended. In a session with a forecast, and with historical data that has the
  column \<^verbatim>\<open>y\<close>, a last value other than zero, and at least one forecast row in
  the slice of the horizon, \<^verbatim>\<open>get_forecast_summary\<close> returns the summary with that
  slice. With \<open>q\<close> the exact quotient of the last point estimate of the slice by
  the last historical value (\<open>\<bar>q\<bar> \<le> 2 ^ 1000\<close>), the growth rate of the summary
  is the float64 value of \<open>(q - 1) * 100\<close>: it differs from the exact value by at
  most \<open>(\<bar>q\<bar> + \<bar>q - 1\<bar>) / 2 ^ 44 + 2 ^ (- 1065)\<close>. When the horizon reaches the
  end of the forecast the last row of the slice is the last row of the forecast.
  With the last historical value 100 and the last point estimate 120 the rate is
  \<open>20 - 2 ^ (- 48)\<close>, within \<open>10 ^ (- 14)\<close> of 20.
\<close>

theorem growth_rate_formula:
  assumes "forecast self = Some fc" and "first_frame d = Inr h" and "value_col h = ''y''"
    and "rows h \<noteq> []" and "snd (last (rows h)) \<noteq> 0"
    and "future = py_slice (int (length (rows h))) (int (length (rows h)) + p) fc"
    and "future \<noteq> []"
    and "q = yhat (last future) / snd (last (rows h))" and "\<bar>q\<bar> \<le> 2 ^ 1000"
  shows "\<exists>sm r. get_forecast_summary self d p = (Inr (Some (sm, future)), self) \<and>
     Sales_Growth_Rate sm = Some r \<and>
     \<bar>r - (q - 1) * 100\<bar> \<le> (\<bar>q\<bar> + \<bar>q - 1\<bar>) / 2 ^ 44 + 2 powi (- 1065) \<and>
     (int (length fc) \<le> int (length (rows h)) + p \<longrightarrow> last future = last fc) \<and>
     (snd (last (rows h)) = 100 \<and> yhat (last future) = 120 \<longrightarrow>
        r = 20 - 1 / 2 ^ 48 \<and> \<bar>r - 20\<bar> \<le> 1 / 10 ^ 14)"
proof -
  have e: "int (length fc) \<le> int (length (rows h)) + p \<longrightarrow> last future = last fc"
  proof
    assume "int (length fc) \<le> int (length (rows h)) + p"
    then have "future = drop (length (rows h)) fc"
      using assms(6) by (simp add: py_slice_to_end)
    with assms(7) show "last future = last fc" by simp
  qed
  obtain sm where s: "get_forecast_summary self d p = (Inr (Some (sm, future)), self)"
    and g: "Sales_Growth_Rate sm = growth_rate (yhat (last future)) (snd (last (rows h)))"
    using summary_returned [OF assms(1-4) assms(6,7)] by blast
  obtain r where r: "growth_rate (yhat (last future)) (snd (last (rows h))) = Some r"
    and b: "\<bar>r - (q - 1) * 100\<bar> \<le> (\<bar>q\<bar> + \<bar>q - 1\<bar>) / 2 ^ 44 + 2 powi (- 1065)"
    using growth_rate_error [OF assms(5) assms(9) [unfolded assms(8)]]
    unfolding assms(8) by blast
  have x: "snd (last (rows h)) = 100 \<and> yhat (last future) = 120 \<longrightarrow>
        r = 20 - 1 / 2 ^ 48 \<and> \<bar>r - 20\<bar> \<le> 1 / 10 ^ 14"
  proof
    assume "snd (last (rows h)) = 100 \<and> yhat (last future) = 120"
    then have "Some r = growth_rate 120 100" using r by simp
    then have "r = 5629499534213119 / 281474976710656"
      unfolding growth_rate_120_100 by simp
    then show "r = 20 - 1 / 2 ^ 48 \<and> \<bar>r - 20\<bar> \<le> 1 / 10 ^ 14" by simp
  qed
  have g': "Sales_Growth_Rate sm = Some r" using g r by simp
  show ?thesis
    using s g' b e x by (intro exI [of _ sm] exI [of _ r] conjI)
qed

theorem growth_rate_formula_witness:
  "forecast forecasted_session = Some example_forecast \<and>
   first_frame (Frame example_history) = Inr example_history \<and>
   value_col example_history = ''y'' \<and> rows example_history \<noteq> [] \<and>
   snd (last (rows example_history)) = 100 \<and>
   py_slice 2 (2 + 2) example_forecast = drop 2 example_forecast \<and>
   yhat (last (drop 2 example_forecast)) = 120 \<and>
   \<bar>120 / 100 :: real\<bar> \<le> 2 ^ 1000 \<and>
   (\<exists>sm r. get_forecast_summary forecasted_session (Frame example_history) 2
       = (Inr (Some (sm, drop 2 example_forecast)), forecasted_session) \<and>
      Sales_Growth_Rate sm = Some r \<and> r = 20 - 1 / 2 ^ 48 \<and> \<bar>r - 20\<bar> \<le> 1 / 10 ^ 14)"
proof -
  have a: "forecast forecasted_session = Some example_forecast"
    by (simp add: forecasted_session_def)
  have b: "first_frame (Frame example_history) = Inr example_history"
    by (simp add: first_frame_def)
  have c: "value_col example_history = ''y''" by (simp add: example_history_def)
  have d: "rows example_history \<noteq> []" by (simp add: example_history_def)
  have l: "snd (last (rows example_history)) = 100" by (simp add: example_history_def)
  have e: "snd (last (rows example_history)) \<noteq> 0" using l by simp
  have n: "int (length (rows example_history)) = 2" by (simp add: example_history_def)
  have f: "drop 2 example_forecast
     = py_slice (int (length (rows example_history))) (int (length (rows example_history)) + 2)
         example_forecast"
    unfolding n by (simp add: py_slice_def slice_bound_def Let_def example_forecast_def)
  have g: "drop 2 example_forecast \<noteq> []" by (simp add: example_forecast_def)
  have y: "yhat (last (drop 2 example_forecast)) = 120" by (simp add: example_forecast_def)
  have q: "(120 / 100 :: real)
      = yhat (last (drop 2 example_forecast)) / snd (last (rows example_history))"
    unfolding l y ..
  have m: "\<bar>120 / 100 :: real\<bar> \<le> 2 ^ 1000" by simp
  have "\<exists>sm r. get_forecast_summary forecasted_session (Frame example_history) 2
       = (Inr (Some (sm, drop 2 example_forecast)), forecasted_session) \<and>
      Sales_Growth_Rate sm = Some r \<and> r = 20 - 1 / 2 ^ 48 \<and> \<bar>r - 20\<bar> \<le> 1 / 10 ^ 14"
    using growth_rate_formula [OF a b c d e f g q m] l y by blast
  then show ?thesis
    using a b c d l y f [unfolded n] m by (intro conjI) simp_all
qed

section \<open>Short series in the decomposition\<close>

text \<open>
  C2, as stated, fails: on ten monthly points \<^verbatim>\<open>decompose_revenue\<close> returns no
  result, and the exception that leaves it is the ValueError of the library, which
  the handler for PlotlyError does not take; the repository defines no
  InsufficientDataError and checks no length itself.
\<close>

theorem short_series_counterexample:
  "length (monthly_revenue ten_months) = 10 \<and>
   fst (decompose_revenue seasonal_decompose \<lparr>input_data = ten_months, tsa_log = []\<rparr>)
     = Inl ValueError \<and>
   fst (decompose_revenue seasonal_decompose \<lparr>input_data = ten_months, tsa_log = []\<rparr>)
     \<noteq> Inl (OtherError ''InsufficientDataError'')"
proof -
  have l: "length (monthly_revenue ten_months) = 10"
    by (simp add: monthly_revenue_def groupby_sum_def group_keys_def sort_values_def
        ten_months_def)
  then show ?thesis
    by (simp add: decompose_revenue_def seasonal_decompose_def Let_def)
qed

text \<open>
  C2, amended. For every dataset whose monthly series (one point per distinct date)
  has fewer than 24 points, \<^verbatim>\<open>decompose_revenue\<close> returns no result: the ValueError
  raised by the decomposition routine leaves the method, and the object is
  unchanged. The method validates nothing itself: whatever routine it calls, an
  exception that leaves it is the one the routine raised, and is no PlotlyError.
\<close>

theorem short_series_raises_ValueError:
  assumes "length (monthly_revenue (input_data self)) < 24"
  shows "decompose_revenue seasonal_decompose self = (Inl ValueError, self) \<and>
     (\<forall>sd e s. decompose_revenue sd self = (Inl e, s) \<longrightarrow>
        sd 12 (map snd (monthly_revenue (input_data self))) = Inl e \<and> e \<noteq> PlotlyError \<and>
        s = self)"
proof (intro conjI allI impI)
  show "decompose_revenue seasonal_decompose self = (Inl ValueError, self)"
    using assms by (simp add: decompose_revenue_def seasonal_decompose_def Let_def)
next
  fix sd e s
  assume "decompose_revenue sd self = (Inl e, s)"
  then show "sd 12 (map snd (monthly_revenue (input_data self))) = Inl e"
    and "e \<noteq> PlotlyError" and "s = self"
    by (auto simp add: decompose_revenue_def Let_def split: sum.splits if_splits)
qed

theorem short_series_raises_ValueError_witness:
  "length (monthly_revenue (input_data \<lparr>input_data = example_rows, tsa_log = []\<rparr>)) < 24 \<and>
   decompose_revenue seasonal_decompose \<lparr>input_data = example_rows, tsa_log = []\<rparr>
     = (Inl ValueError, \<lparr>input_data = example_rows, tsa_log = []\<rparr>)"
proof -
  have l: "length (monthly_revenue (input_data \<lparr>input_data = example_rows, tsa_log = []\<rparr>)) < 24"
    by (simp add: monthly_revenue_def groupby_sum_def group_keys_def sort_values_def
        example_rows_def)
  show ?thesis using l short_series_raises_ValueError [OF l] by blast
qed

section \<open>Aggregation per date\<close>

lemma group_values_select: "group_values d (select_country c df) = matching_sales c d df"
  by (induction df) (simp_all add: group_values_def select_country_def matching_sales_def)

lemma group_values_all: "group_values d (map (\<lambda>r. (Date r, Sales r)) df) = date_sales d df"
  by (induction df) (simp_all add: group_values_def date_sales_def)

lemma group_values_sort: "group_values d (sort_values xs) = group_values d xs"
  unfolding group_values_def sort_values_def by (simp only: sort_key_stable)

lemma set_group_keys: "set (group_keys xs) = fst ` set xs"
  by (simp add: group_keys_def)

lemma in_keys_iff: "d \<in> fst ` set xs \<longleftrightarrow> group_values d xs \<noteq> []"
  by (induction xs) (auto simp add: group_values_def)

lemma map_of_tabulate:
  "map_of (map (\<lambda>k. (k, f k)) ks) d = (if d \<in> set ks then Some (f d) else None)"
  by (induction ks) simp_all

lemma map_of_groupby_sum:
  "map_of (groupby_sum xs) d =
     (if group_values d xs = [] then None else Some (sum_list (group_values d xs)))"
  unfolding groupby_sum_def map_of_tabulate set_group_keys in_keys_iff by simp

lemma map_of_groupby_mean:
  "map_of (groupby_mean xs) d =
     (if group_values d xs = [] then None
      else Some (sum_list (group_values d xs) / real (length (group_values d xs))))"
  unfolding groupby_mean_def map_of_tabulate set_group_keys in_keys_iff by simp

lemma keys_groupby_sum: "map fst (groupby_sum xs) = group_keys xs"
  by (simp add: groupby_sum_def comp_def)

lemma keys_groupby_mean: "map fst (groupby_mean xs) = group_keys xs"
  by (simp add: groupby_mean_def comp_def)

lemma sorted_distinct_group_keys: "sorted (group_keys xs) \<and> distinct (group_keys xs)"
  by (simp add: group_keys_def)

section \<open>The rolling mean\<close>

lemma last_w_append:
  "drop (length (drop (length A - w) A @ B) - w) (drop (length A - w) A @ B)
     = drop (length (A @ B) - w) (A @ B)"
proof (cases "length A \<le> w")
  case True
  then show ?thesis by simp
next
  case False
  then have "length B + length A - w = length A + length B - w" by simp
  with False show ?thesis by (simp add: add.commute)
qed

lemma last_w_last_w: "last_w w (last_w w a @ b) = last_w w (a @ b)"
  unfolding last_w_def by (rule last_w_append)

lemma length_roll_mean: "length (roll_mean w win xs) = length xs"
  by (induction xs arbitrary: win) simp_all

lemma length_rolling_mean: "length (rolling_mean w xs) = length xs"
  by (simp add: rolling_mean_def length_roll_mean)

lemma roll_mean_nth:
  "i < length xs \<Longrightarrow>
   roll_mean w win xs ! i = window_mean w (last_w w (win @ take (Suc i) xs))"
proof (induction xs arbitrary: win i)
  case Nil
  then show ?case by simp
next
  case (Cons x xs)
  show ?case
  proof (cases i)
    case 0
    then show ?thesis by simp
  next
    case (Suc j)
    with Cons.prems have j: "j < length xs" by simp
    have "roll_mean w win (x # xs) ! i = roll_mean w (last_w w (win @ [x])) xs ! j"
      unfolding Suc by simp
    also have "\<dots> = window_mean w (last_w w (last_w w (win @ [x]) @ take (Suc j) xs))"
      by (rule Cons.IH [OF j])
    also have "\<dots> = window_mean w (last_w w ((win @ [x]) @ take (Suc j) xs))"
      by (simp only: last_w_last_w)
    also have "(win @ [x]) @ take (Suc j) xs = win @ take (Suc i) (x # xs)"
      unfolding Suc by simp
    finally show ?thesis .
  qed
qed

lemma rolling_mean_nth:
  assumes "i < length xs" and "1 \<le> w"
  shows "rolling_mean w xs ! i =
     (if i + 1 < w then None else Some (sum_list (take w (drop (i + 1 - w) xs)) / real w))"
proof -
  define v where "v = last_w w (take (Suc i) xs)"
  have len: "length (take (Suc i) xs) = Suc i" using assms by simp
  have r: "rolling_mean w xs ! i = window_mean w v"
    unfolding rolling_mean_def v_def using roll_mean_nth [OF assms(1), of w "[]"] by simp
  show ?thesis
  proof (cases "i + 1 < w")
    case True
    then have "length v < w" unfolding v_def last_w_def using len by simp
    then show ?thesis using True r by (simp add: window_mean_def)
  next
    case False
    have v: "v = take w (drop (Suc i - w) xs)"
      unfolding v_def last_w_def len using False assms by (simp add: drop_take)
    have lv: "length v = w" unfolding v using False assms by simp
    have "window_mean w v = Some (sum_list v / real w)"
      using lv assms(2) by (auto simp add: window_mean_def)
    then show ?thesis using False v r by simp
  qed
qed

section \<open>The frames of the moving-average analysis\<close>

lemma country_moving_average_ok:
  "0 \<le> window \<Longrightarrow> country_moving_average df window c = Inr (country_rows df (nat window) c)"
  by (simp add: country_moving_average_def)

lemma ma_loop_ok:
  "0 \<le> window \<Longrightarrow>
   ma_loop df window cs = Inr (map (\<lambda>c. (c, country_rows df (nat window) c)) cs)"
  by (induction cs) (simp_all add: country_moving_average_ok)

lemma moving_average_analysis_ok:
  "0 \<le> window \<Longrightarrow>
   moving_average_analysis self window =
     (Inr (Some (map (\<lambda>c. (c, country_rows (input_data self) (nat window) c))
        (remdups (map Country (input_data self))))), self)"
  by (simp add: moving_average_analysis_def ma_loop_ok Let_def)

lemma country_rows_series:
  "ma_series (country_rows df w c) = groupby_mean (sort_values (select_country c df))"
proof -
  define agg where "agg = groupby_mean (sort_values (select_country c df))"
  have "length (rolling_mean w (map snd agg)) = length agg"
    by (simp add: length_rolling_mean)
  then have "map fst (zip agg (rolling_mean w (map snd agg))) = agg"
    by (simp add: map_fst_zip)
  moreover have "ma_series (country_rows df w c) = map fst (zip agg (rolling_mean w (map snd agg)))"
    by (simp add: ma_series_def country_rows_def Let_def case_prod_beta agg_def)
  ultimately show ?thesis by (simp add: agg_def)
qed

lemma country_rows_moving_average:
  "map Moving_Average (country_rows df w c) = rolling_mean w (map ma_sales (country_rows df w c))"
proof -
  define agg where "agg = groupby_mean (sort_values (select_country c df))"
  have l: "length (rolling_mean w (map snd agg)) = length agg"
    by (simp add: length_rolling_mean)
  have s: "map ma_sales (country_rows df w c) = map snd (map fst (zip agg (rolling_mean w (map snd agg))))"
    by (simp add: country_rows_def Let_def case_prod_beta agg_def)
  have m: "map Moving_Average (country_rows df w c) = map snd (zip agg (rolling_mean w (map snd agg)))"
    by (simp add: country_rows_def Let_def case_prod_beta agg_def)
  show ?thesis
    unfolding s m using l by (simp add: map_fst_zip map_snd_zip)
qed

lemma country_rows_value:
  "map_of (ma_series (country_rows df w c)) d =
     (if matching_sales c d df = [] then None
      else Some (sum_list (matching_sales c d df) / real (length (matching_sales c d df))))"
  unfolding country_rows_series map_of_groupby_mean group_values_sort group_values_select ..

lemma country_rows_nth:
  assumes "i < length (country_rows df w c)" and "1 \<le> w"
  shows "Moving_Average (country_rows df w c ! i) =
     (if i + 1 < w then None
      else Some (sum_list (map ma_sales (take w (drop (i + 1 - w) (country_rows df w c)))) / real w))"
proof -
  define t where "t = country_rows df w c"
  have "Moving_Average (t ! i) = map Moving_Average t ! i"
    using assms(1) by (simp add: t_def)
  also have "\<dots> = rolling_mean w (map ma_sales t) ! i"
    by (simp only: t_def country_rows_moving_average)
  also have "\<dots> = (if i + 1 < w then None
      else Some (sum_list (take w (drop (i + 1 - w) (map ma_sales t))) / real w))"
    using assms by (simp only: rolling_mean_nth t_def length_map)
  finally show ?thesis by (simp add: t_def take_map drop_map)
qed

text \<open>
  C4. For every dataset and every window \<open>W \<ge> 1\<close>, \<^verbatim>\<open>moving_average_analysis\<close>
  returns a dictionary of frames, and in every frame the column
  \<^verbatim>\<open>Moving_Average\<close> is undefined at the positions before \<open>W - 1\<close> and, from
  position \<open>W - 1\<close> on, the mean of the \<open>W\<close> values of the column \<^verbatim>\<open>Sales\<close> that end
  at the position. The rolling mean of 10, 20, 30, 40, 50 with the window 2 is
  undefined, 15, 25, 35, 45.
\<close>

theorem moving_average_boundary:
  assumes "1 \<le> window"
  shows "\<exists>res. moving_average_analysis self window = (Inr (Some res), self) \<and>
     (\<forall>c t i. (c, t) \<in> set res \<and> i < length t \<longrightarrow>
        Moving_Average (t ! i) =
          (if i + 1 < nat window then None
           else Some (sum_list (map ma_sales (take (nat window) (drop (i + 1 - nat window) t)))
                  / real (nat window)))) \<and>
     rolling_mean 2 [10, 20, 30, 40, 50] = [None, Some 15, Some 25, Some 35, Some 45]"
proof -
  have w: "1 \<le> nat window" and w0: "0 \<le> window" using assms by simp_all
  have ex: "rolling_mean 2 [10, 20, 30, 40, 50] = [None, Some 15, Some 25, Some 35, Some 45]"
    by (simp add: rolling_mean_def last_w_def window_mean_def)
  show ?thesis
    unfolding moving_average_analysis_ok [OF w0]
    using ex country_rows_nth [OF _ w] by auto
qed

theorem moving_average_boundary_witness:
  "(1::int) \<le> 2 \<and>
   moving_average_analysis \<lparr>input_data = five_months, tsa_log = []\<rparr> 2 =
     (Inr (Some [(''Germany'',
        [\<lparr>ma_date = (2020, 1, 1), ma_sales = 10, Moving_Average = None\<rparr>,
         \<lparr>ma_date = (2020, 2, 1), ma_sales = 20, Moving_Average = Some 15\<rparr>,
         \<lparr>ma_date = (2020, 3, 1), ma_sales = 30, Moving_Average = Some 25\<rparr>,
         \<lparr>ma_date = (2020, 4, 1), ma_sales = 40, Moving_Average = Some 35\<rparr>,
         \<lparr>ma_date = (2020, 5, 1), ma_sales = 50, Moving_Average = Some 45\<rparr>])]),
      \<lparr>input_data = five_months, tsa_log = []\<rparr>) \<and>
   rolling_mean 2 [10, 20, 30, 40, 50] = [None, Some 15, Some 25, Some 35, Some 45]"
proof -
  have h: "(1::int) \<le> 2" by simp
  have e: "moving_average_analysis \<lparr>input_data = five_months, tsa_log = []\<rparr> 2 =
     (Inr (Some [(''Germany'',
        [\<lparr>ma_date = (2020, 1, 1), ma_sales = 10, Moving_Average = None\<rparr>,
         \<lparr>ma_date = (2020, 2, 1), ma_sales = 20, Moving_Average = Some 15\<rparr>,
         \<lparr>ma_date = (2020, 3, 1), ma_sales = 30, Moving_Average = Some 25\<rparr>,
         \<lparr>ma_date = (2020, 4, 1), ma_sales = 40, Moving_Average = Some 35\<rparr>,
         \<lparr>ma_date = (2020, 5, 1), ma_sales = 50, Moving_Average = Some 45\<rparr>])]),
      \<lparr>input_data = five_months, tsa_log = []\<rparr>)"
    by (simp add: moving_average_analysis_def country_moving_average_def country_rows_def
        select_country_def sort_values_def groupby_mean_def group_keys_def group_values_def
        rolling_mean_def last_w_def window_mean_def five_months_def Let_def)
  show ?thesis
    using h e moving_average_boundary [OF h, of "\<lparr>input_data = five_months, tsa_log = []\<rparr>"]
    by simp
qed

text \<open>
  C5. With the window 1 the column \<^verbatim>\<open>Moving_Average\<close> of every frame that
  \<^verbatim>\<open>moving_average_analysis\<close> returns equals the column \<^verbatim>\<open>Sales\<close> of the frame (the
  series aggregated per date) at every position.
\<close>

theorem moving_average_window_one:
  "\<exists>res. moving_average_analysis self 1 = (Inr (Some res), self) \<and>
     (\<forall>c t i. (c, t) \<in> set res \<and> i < length t \<longrightarrow>
        Moving_Average (t ! i) = Some (ma_sales (t ! i)))"
proof -
  have n: "Moving_Average (country_rows df 1 c ! i) = Some (ma_sales (country_rows df 1 c ! i))"
    if "i < length (country_rows df 1 c)" for df c i
  proof -
    have "take 1 (drop i (country_rows df 1 c)) = [country_rows df 1 c ! i]"
      using that by (simp add: Cons_nth_drop_Suc [symmetric])
    then show ?thesis
      using country_rows_nth [OF that, of] by simp
  qed
  show ?thesis
    using moving_average_analysis_ok [of 1 self] n by auto
qed

theorem moving_average_window_one_witness:
  "moving_average_analysis \<lparr>input_data = example_rows, tsa_log = []\<rparr> 1 =
     (Inr (Some [(''Germany'',
         [\<lparr>ma_date = (2020, 1, 1), ma_sales = 15, Moving_Average = Some 15\<rparr>]),
        (''Poland'',
         [\<lparr>ma_date = (2020, 2, 1), ma_sales = 7, Moving_Average = Some 7\<rparr>])]),
      \<lparr>input_data = example_rows, tsa_log = []\<rparr>)"
proof -
  have e: "moving_average_analysis \<lparr>input_data = example_rows, tsa_log = []\<rparr> 1 =
     (Inr (Some [(''Germany'',
         [\<lparr>ma_date = (2020, 1, 1), ma_sales = 15, Moving_Average = Some 15\<rparr>]),
        (''Poland'',
         [\<lparr>ma_date = (2020, 2, 1), ma_sales = 7, Moving_Average = Some 7\<rparr>])]),
      \<lparr>input_data = example_rows, tsa_log = []\<rparr>)"
    by (simp add: moving_average_analysis_def country_moving_average_def country_rows_def
        select_country_def sort_values_def groupby_mean_def group_keys_def group_values_def
        rolling_mean_def last_w_def window_mean_def example_rows_def Let_def)
  show ?thesis
    using e moving_average_window_one [of "\<lparr>input_data = example_rows, tsa_log = []\<rparr>"]
    by simp
qed

section \<open>Sum or mean per date\<close>

lemma data_organization_ok:
  "data self = Some df \<Longrightarrow>
   data_organization self =
     (Inr (Some (\<lparr>date_col = ''Date'', value_col = ''Sales'',
                   rows = groupby_sum (select_country ''Poland'' df)\<rparr>,
                 \<lparr>date_col = ''Date'', value_col = ''Sales'',
                   rows = groupby_sum (select_country ''Germany'' df)\<rparr>)), self)"
  by (simp add: data_organization_def Let_def)

lemma country_sum_value:
  "map_of (groupby_sum (select_country c df)) d =
     (if matching_sales c d df = [] then None else Some (sum_list (matching_sales c d df)))"
  unfolding map_of_groupby_sum group_values_select ..

lemma monthly_revenue_value:
  "map_of (monthly_revenue df) d =
     (if date_sales d df = [] then None else Some (sum_list (date_sales d df)))"
  unfolding monthly_revenue_def map_of_groupby_sum group_values_sort group_values_all ..

text \<open>
  C3, as stated, fails on the path of the moving-average analysis: with two rows
  of Germany in January 2020, of sales 10 and 20, the value of the series for
  that month is their mean 15, not their sum 30.
\<close>

theorem aggregation_counterexample:
  "matching_sales ''Germany'' (2020, 1, 1) example_rows = [10, 20] \<and>
   sum_list (matching_sales ''Germany'' (2020, 1, 1) example_rows) = 30 \<and>
   fst (moving_average_analysis \<lparr>input_data = example_rows, tsa_log = []\<rparr> 1) =
     Inr (Some [(''Germany'',
         [\<lparr>ma_date = (2020, 1, 1), ma_sales = 15, Moving_Average = Some 15\<rparr>]),
        (''Poland'',
         [\<lparr>ma_date = (2020, 2, 1), ma_sales = 7, Moving_Average = Some 7\<rparr>])])"
  by (simp add: moving_average_analysis_def country_moving_average_def country_rows_def
      select_country_def sort_values_def groupby_mean_def group_keys_def group_values_def
      rolling_mean_def last_w_def window_mean_def example_rows_def matching_sales_def Let_def)

text \<open>
  C3, amended. For every dataset and every date: the series that
  \<^verbatim>\<open>data_organization\<close> builds for Poland and for Germany (the input of the
  forecast) hold, at each date for which the country has a row, the sum of
  \<^verbatim>\<open>Sales\<close> over exactly the rows of that country and date, and no other date; the
  series of the decomposition holds the sum over exactly the rows of the date; each
  date occurs once, in ascending order. The series that
  \<^verbatim>\<open>moving_average_analysis\<close> builds for a country holds, at each such date, the
  arithmetic mean of \<^verbatim>\<open>Sales\<close> over exactly the rows of that country and date.
\<close>

theorem aggregation_per_path:
  "(data self = Some df \<longrightarrow>
      (\<exists>pf gf. data_organization self = (Inr (Some (pf, gf)), self) \<and>
         map_of (rows pf) d =
           (if matching_sales ''Poland'' d df = [] then None
            else Some (sum_list (matching_sales ''Poland'' d df))) \<and>
         map_of (rows gf) d =
           (if matching_sales ''Germany'' d df = [] then None
            else Some (sum_list (matching_sales ''Germany'' d df))) \<and>
         sorted (map fst (rows pf)) \<and> distinct (map fst (rows pf)) \<and>
         sorted (map fst (rows gf)) \<and> distinct (map fst (rows gf)))) \<and>
   map_of (monthly_revenue (input_data tsa)) d =
     (if date_sales d (input_data tsa) = [] then None
      else Some (sum_list (date_sales d (input_data tsa)))) \<and>
   sorted (map fst (monthly_revenue (input_data tsa))) \<and>
   distinct (map fst (monthly_revenue (input_data tsa))) \<and>
   (0 \<le> window \<longrightarrow>
      (\<exists>res. moving_average_analysis tsa window = (Inr (Some res), tsa) \<and>
         map fst res = remdups (map Country (input_data tsa)) \<and>
         (\<forall>c t. (c, t) \<in> set res \<longrightarrow>
            map_of (ma_series t) d =
              (if matching_sales c d (input_data tsa) = [] then None
               else Some (sum_list (matching_sales c d (input_data tsa)) /
                      real (length (matching_sales c d (input_data tsa))))) \<and>
            sorted (map fst (ma_series t)) \<and> distinct (map fst (ma_series t)))))"
proof (intro conjI impI)
  assume a: "data self = Some df"
  show "\<exists>pf gf. data_organization self = (Inr (Some (pf, gf)), self) \<and>
         map_of (rows pf) d =
           (if matching_sales ''Poland'' d df = [] then None
            else Some (sum_list (matching_sales ''Poland'' d df))) \<and>
         map_of (rows gf) d =
           (if matching_sales ''Germany'' d df = [] then None
            else Some (sum_list (matching_sales ''Germany'' d df))) \<and>
         sorted (map fst (rows pf)) \<and> distinct (map fst (rows pf)) \<and>
         sorted (map fst (rows gf)) \<and> distinct (map fst (rows gf))"
    unfolding data_organization_ok [OF a]
    by (simp add: country_sum_value keys_groupby_sum sorted_distinct_group_keys)
next
  show "map_of (monthly_revenue (input_data tsa)) d =
     (if date_sales d (input_data tsa) = [] then None
      else Some (sum_list (date_sales d (input_data tsa))))"
    by (rule monthly_revenue_value)
next
  show "sorted (map fst (monthly_revenue (input_data tsa)))"
    by (simp add: monthly_revenue_def keys_groupby_sum sorted_distinct_group_keys)
next
  show "distinct (map fst (monthly_revenue (input_data tsa)))"
    by (simp add: monthly_revenue_def keys_groupby_sum sorted_distinct_group_keys)
next
  assume w: "0 \<le> window"
  show "\<exists>res. moving_average_analysis tsa window = (Inr (Some res), tsa) \<and>
         map fst res = remdups (map Country (input_data tsa)) \<and>
         (\<forall>c t. (c, t) \<in> set res \<longrightarrow>
            map_of (ma_series t) d =
              (if matching_sales c d (input_data tsa) = [] then None
               else Some (sum_list (matching_sales c d (input_data tsa)) /
                      real (length (matching_sales c d (input_data tsa))))) \<and>
            sorted (map fst (ma_series t)) \<and> distinct (map fst (ma_series t)))"
  proof (intro exI conjI allI impI)
    show "moving_average_analysis tsa window =
        (Inr (Some (map (\<lambda>c. (c, country_rows (input_data tsa) (nat window) c))
           (remdups (map Country (input_data tsa))))), tsa)"
      by (rule moving_average_analysis_ok [OF w])
  next
    show "map fst (map (\<lambda>c. (c, country_rows (input_data tsa) (nat window) c))
        (remdups (map Country (input_data tsa)))) = remdups (map Country (input_data tsa))"
      by (simp add: comp_def)
  next
    fix c t
    assume "(c, t) \<in> set (map (\<lambda>c. (c, country_rows (input_data tsa) (nat window) c))
        (remdups (map Country (input_data tsa))))"
    then have t: "t = country_rows (input_data tsa) (nat window) c"
      by auto
    show "map_of (ma_series t) d =
              (if matching_sales c d (input_data tsa) = [] then None
               else Some (sum_list (matching_sales c d (input_data tsa)) /
                      real (length (matching_sales c d (input_data tsa)))))"
      unfolding t by (rule country_rows_value)
    show "sorted (map fst (ma_series t))"
      unfolding t country_rows_series keys_groupby_mean
      by (simp add: sorted_distinct_group_keys)
    show "distinct (map fst (ma_series t))"
      unfolding t country_rows_series keys_groupby_mean
      by (simp add: sorted_distinct_group_keys)
  qed
qed

theorem aggregation_per_path_witness:
  "data (init (Some example_rows)) = Some example_rows \<and> (0::int) \<le> 1 \<and>
   matching_sales ''Germany'' (2020, 1, 1) example_rows = [10, 20] \<and>
   (\<exists>pf gf. data_organization (init (Some example_rows))
        = (Inr (Some (pf, gf)), init (Some example_rows)) \<and>
      map_of (rows gf) (2020, 1, 1) = Some 30) \<and>
   (\<exists>res. moving_average_analysis \<lparr>input_data = example_rows, tsa_log = []\<rparr> 1
        = (Inr (Some res), \<lparr>input_data = example_rows, tsa_log = []\<rparr>) \<and>
      (\<forall>c t. (c, t) \<in> set res \<longrightarrow>
         map_of (ma_series t) (2020, 1, 1) =
           (if matching_sales c (2020, 1, 1) example_rows = [] then None
            else Some (sum_list (matching_sales c (2020, 1, 1) example_rows) /
                   real (length (matching_sales c (2020, 1, 1) example_rows))))))"
proof -
  have a: "data (init (Some example_rows)) = Some example_rows" by (simp add: init_def)
  have m: "matching_sales ''Germany'' (2020, 1, 1) example_rows = [10, 20]"
    by (simp add: matching_sales_def example_rows_def)
  note th = aggregation_per_path [of "init (Some example_rows)" example_rows "(2020, 1, 1)"
      "\<lparr>input_data = example_rows, tsa_log = []\<rparr>" 1]
  have p1: "\<exists>pf gf. data_organization (init (Some example_rows))
        = (Inr (Some (pf, gf)), init (Some example_rows)) \<and>
      map_of (rows gf) (2020, 1, 1) = Some 30"
    using th a m by auto
  have p2: "\<exists>res. moving_average_analysis \<lparr>input_data = example_rows, tsa_log = []\<rparr> 1
        = (Inr (Some res), \<lparr>input_data = example_rows, tsa_log = []\<rparr>) \<and>
      (\<forall>c t. (c, t) \<in> set res \<longrightarrow>
         map_of (ma_series t) (2020, 1, 1) =
           (if matching_sales c (2020, 1, 1) example_rows = [] then None
            else Some (sum_list (matching_sales c (2020, 1, 1) example_rows) /
                   real (length (matching_sales c (2020, 1, 1) example_rows)))))"
    using th by auto
  show ?thesis using a m p1 p2 by simp
qed

section \<open>Month ends\<close>


lemma month_index_month_end: "month_index (month_end k) = k"
  by (simp add: month_index_def month_end_def)

lemma date_less_iff:
  "((y, m, d) :: date) < (y', m', d') \<longleftrightarrow> y < y' \<or> (y = y' \<and> (m < m' \<or> (m = m' \<and> d < d')))"
  by (auto simp add: less_prod_def)


lemma div_mod_less:
  assumes "k < (k'::nat)"
  shows "k div 12 < k' div 12 \<or> (k div 12 = k' div 12 \<and> k mod 12 < k' mod 12)"
proof (cases "k div 12 = k' div 12")
  case True
  have "k = 12 * (k div 12) + k mod 12" and "k' = 12 * (k' div 12) + k' mod 12"
    by (simp_all only: mult_div_mod_eq)
  with assms True have "k mod 12 < k' mod 12" by linarith
  then show ?thesis using True by simp
next
  case False
  moreover have "k div 12 \<le> k' div 12" using assms by (simp add: div_le_mono)
  ultimately show ?thesis by simp
qed

lemma month_end_mono: "k < k' \<Longrightarrow> month_end k < month_end k'"
  using div_mod_less [of k k'] unfolding month_end_def date_less_iff by auto







lemma month_end_le: "month_end k \<le> month_end (k + j)"
  by (cases j) (simp_all add: month_end_mono less_imp_le)





lemma is_month_end_month_end: "is_month_end (month_end k)"
  by (simp add: is_month_end_def month_index_month_end)

lemma is_month_end_plus: "is_month_end (plus_month_ends L (Suc i))"
  by (simp add: plus_month_ends_def is_month_end_month_end)

lemma first_month_end_after:
  assumes "valid_date L" and "L < month_end k"
  shows "plus_month_ends L 1 \<le> month_end k"
proof -
  have ge: "month_index L \<le> k"
  proof (rule ccontr)
    assume "\<not> month_index L \<le> k"
    then have "month_end k < month_end (month_index L)" by (simp add: month_end_mono)
    have "k + 1 \<le> month_index L" using \<open>\<not> month_index L \<le> k\<close> by simp
    obtain y m dd where d: "L = (y, m, dd)" by (cases L) auto
    from assms(1) d have m: "1 \<le> m" "m \<le> 12" "1 \<le> dd" by (simp_all add: valid_date_def)
    obtain n where n: "m = Suc n" using m by (cases m) auto
    define K where "K = 12 * y + (m - 1)"
    have 1: "K div 12 = y" and 2: "K mod 12 = n" using m n by (simp_all add: K_def)
    have "k < K" using \<open>k + 1 \<le> month_index L\<close> by (simp add: d month_index_def K_def)
    from div_mod_less [OF this] have "k div 12 < y \<or> (k div 12 = y \<and> k mod 12 < n)"
      unfolding 1 2 .
    then have "k div 12 < y \<or> (k div 12 = y \<and> k mod 12 + 1 < m)"
      using n by auto
    then have "month_end k < L"
      unfolding d month_end_def date_less_iff by auto
    with assms(2) show False by simp
  qed
  show ?thesis
  proof (cases "is_month_end L")
    case True
    then have "L = month_end (month_index L)" by (simp add: is_month_end_def)
    with assms(2) have "month_index L \<noteq> k" by auto
    with ge have "month_index L + 1 \<le> k" by simp
    then have "month_end (month_index L + 1) \<le> month_end k"
      using month_end_le [of "month_index L + 1" "k - (month_index L + 1)"] by simp
    then show ?thesis using True by (simp add: plus_month_ends_def)
  next
    case False
    have "month_end (month_index L) \<le> month_end k"
      using month_end_le [of "month_index L" "k - month_index L"] ge by simp
    then show ?thesis using False by (simp add: plus_month_ends_def)
  qed
qed

section \<open>The horizon of a forecast\<close>







lemma fit_example:
  "fit_prophet_model example_backend (init None) (Frame example_history) None []
     = (Inr (prophet_model fitted_session), fitted_session)"
  by (simp add: fit_prophet_model_def fit_body_def prophet_fit_def example_backend_def
      example_history_def fitted_session_def init_def dict_update_def default_params_def Let_def)






section \<open>The seasonal indices\<close>

lemma sum_list_positive:
  fixes xs :: "real list"
  assumes "xs \<noteq> []" and "\<forall>v \<in> set xs. 0 < v"
  shows "0 < sum_list xs"
  using assms
proof (induction xs)
  case Nil
  then show ?case by simp
next
  case (Cons a xs)
  have "0 \<le> sum_list xs"
    using Cons.prems(2) by (intro sum_list_nonneg) (simp add: less_imp_le)
  moreover have "0 < a" using Cons.prems(2) by simp
  ultimately show ?case by simp
qed

lemma seasonal_filter_positive:
  assumes "0 < p"
  shows "seasonal_filter p \<noteq> [] \<and> (\<forall>w \<in> set (seasonal_filter p). 0 < w)"
  using assms by (auto simp add: seasonal_filter_def)

lemma weighted_sum_positive:
  fixes ws xs :: "real list"
  assumes "ws \<noteq> []" and "xs \<noteq> []"
    and "\<forall>w \<in> set ws. 0 < w" and "\<forall>v \<in> set xs. 0 < v"
  shows "0 < sum_list (map2 (*) ws xs)"
proof (rule sum_list_positive)
  show "map2 (*) ws xs \<noteq> []" using assms(1,2) by (cases ws; cases xs) simp_all
  show "\<forall>v \<in> set (map2 (*) ws xs). 0 < v"
  proof
    fix v assume "v \<in> set (map2 (*) ws xs)"
    then obtain w u where "(w, u) \<in> set (zip ws xs)" and v: "v = w * u" by auto
    then have "w \<in> set ws" and "u \<in> set xs" by (auto dest: set_zip_leftD set_zip_rightD)
    then show "0 < v" using assms(3,4) v by simp
  qed
qed

lemma length_centred_trend: "length (centred_trend p x) = length x"
  by (simp add: centred_trend_def)

lemma centred_trend_nth:
  assumes "0 < p" and "\<forall>v \<in> set x. 0 < v" and "i < length x"
  shows "if p div 2 \<le> i \<and> i + p div 2 < length x
         then \<exists>t. 0 < t \<and> centred_trend p x ! i = Some t
         else centred_trend p x ! i = None"
proof (cases "p div 2 \<le> i \<and> i + p div 2 < length x")
  case True
  have "drop (i - p div 2) x \<noteq> []" using assms(3) by simp
  moreover have "\<forall>v \<in> set (drop (i - p div 2) x). 0 < v"
    using assms(2) by (meson in_set_dropD)
  ultimately have "0 < sum_list (map2 (*) (seasonal_filter p) (drop (i - p div 2) x))"
    using seasonal_filter_positive [OF assms(1)] by (intro weighted_sum_positive) simp_all
  moreover have "centred_trend p x ! i =
      Some (sum_list (map2 (*) (seasonal_filter p) (drop (i - p div 2) x)))"
    using True assms(3) by (simp add: centred_trend_def)
  ultimately show ?thesis using True by simp
next
  case False
  then have "centred_trend p x ! i = None"
    using assms(3) by (auto simp add: centred_trend_def)
  then show ?thesis using False by simp
qed

lemma length_detrend: "length (detrend x (centred_trend p x)) = length x"
  by (simp add: detrend_def length_centred_trend)

lemma detrend_nth:
  assumes "0 < p" and "\<forall>v \<in> set x. 0 < v" and "i < length x"
  shows "if p div 2 \<le> i \<and> i + p div 2 < length x
         then \<exists>q. 0 < q \<and> detrend x (centred_trend p x) ! i = Some q
         else detrend x (centred_trend p x) ! i = None"
proof -
  have n: "detrend x (centred_trend p x) ! i =
      (case centred_trend p x ! i of None \<Rightarrow> None | Some w \<Rightarrow> np_div (x ! i) w)"
    using assms(3) by (simp add: detrend_def length_centred_trend)
  have xi: "0 < x ! i" using assms(2,3) by simp
  show ?thesis
  proof (cases "p div 2 \<le> i \<and> i + p div 2 < length x")
    case True
    then obtain t where "0 < t" and "centred_trend p x ! i = Some t"
      using centred_trend_nth [OF assms] by auto
    then have "detrend x (centred_trend p x) ! i = Some (x ! i / t)" and "0 < x ! i / t"
      using n xi by (simp_all add: np_div_def)
    then show ?thesis using True by auto
  next
    case False
    then have "centred_trend p x ! i = None"
      using centred_trend_nth [OF assms] by auto
    then show ?thesis using False n by simp
  qed
qed

lemma residue_in_window:
  assumes "0 < (p::nat)" and "k < p"
  shows "\<exists>i. a \<le> i \<and> i < a + p \<and> i mod p = k"
proof -
  define i where "i = a + (k + p - a mod p) mod p"
  have "a mod p < p" using assms(1) by simp
  have "i mod p = (a + (k + p - a mod p)) mod p"
    unfolding i_def by (simp only: mod_add_right_eq)
  also have "\<dots> = (a mod p + (k + p - a mod p)) mod p"
    by (simp only: mod_add_left_eq)
  also have "a mod p + (k + p - a mod p) = k + p" using \<open>a mod p < p\<close> by simp
  also have "(k + p) mod p = k" using assms(2) by simp
  finally have "i mod p = k" .
  moreover have "a \<le> i" by (simp add: i_def)
  moreover have "i < a + p" using assms(1) by (simp add: i_def)
  ultimately show ?thesis by blast
qed

lemma nanmean_positive:
  assumes "\<exists>v. Some v \<in> set vs" and "\<forall>v. Some v \<in> set vs \<longrightarrow> 0 < v"
  shows "\<exists>a. 0 < a \<and> nanmean vs = Some a"
proof -
  define ws where "ws = List.map_filter id vs"
  have s: "set ws = {v. Some v \<in> set vs}"
    unfolding ws_def by (induction vs) (auto split: option.splits)
  then have ne: "ws \<noteq> []" using assms(1) by auto
  have "\<forall>v \<in> set ws. 0 < v" using s assms(2) by simp
  then have "0 < sum_list ws" using ne by (intro sum_list_positive) simp_all
  then have "0 < sum_list ws / real (length ws)" using ne by simp
  then show ?thesis using ne by (simp add: nanmean_def ws_def [symmetric] Let_def)
qed

lemma length_seasonal_mean: "length (seasonal_mean p d) = p"
  by (simp add: seasonal_mean_def)

lemma seasonal_mean_nth:
  assumes "0 < p" and "\<forall>v \<in> set x. 0 < v" and "2 * p \<le> length x" and "k < p"
  shows "\<exists>a. 0 < a \<and> seasonal_mean p (detrend x (centred_trend p x)) ! k = Some a"
proof -
  define d where "d = detrend x (centred_trend p x)"
  define vs where "vs = map (\<lambda>i. d ! i) (filter (\<lambda>i. i mod p = k) [0..<length d])"
  have ld: "length d = length x" by (simp add: d_def length_detrend)
  have sm: "seasonal_mean p d ! k = nanmean vs"
    using assms(4) by (simp add: seasonal_mean_def vs_def)
  obtain i where i: "p div 2 \<le> i" "i < p div 2 + p" "i mod p = k"
    using residue_in_window [OF assms(1,4), of "p div 2"] by blast
  have "p div 2 + p div 2 \<le> p" by simp
  then have r: "i + p div 2 < length x" and il: "i < length x"
    using i(2) assms(3) by simp_all
  obtain q where "0 < q" and q: "d ! i = Some q"
    using detrend_nth [OF assms(1,2) il] i(1) r unfolding d_def by auto
  have "d ! i \<in> set vs"
    using il i(3) ld by (auto simp add: vs_def)
  then have 1: "\<exists>v. Some v \<in> set vs" using q by auto
  have 2: "\<forall>v. Some v \<in> set vs \<longrightarrow> 0 < v"
  proof (intro allI impI)
    fix v assume "Some v \<in> set vs"
    then obtain j where j: "j < length x" and v: "d ! j = Some v"
      using ld by (auto simp add: vs_def)
    show "0 < v"
      using detrend_nth [OF assms(1,2) j] v unfolding d_def
      by (cases "p div 2 \<le> j \<and> j + p div 2 < length x") auto
  qed
  show ?thesis
    using nanmean_positive [OF 1 2] sm unfolding d_def by simp
qed

lemma normalise_indices_mean:
  fixes avs :: "real list"
  assumes "avs \<noteq> []" and "\<forall>a \<in> set avs. 0 < a"
  shows "\<exists>idx. normalise_indices (map Some avs) = map Some idx \<and> length idx = length avs \<and>
     (\<forall>v \<in> set idx. 0 < v) \<and> sum_list idx / real (length avs) = 1"
proof -
  define m where "m = sum_list avs / real (length avs)"
  have s: "0 < sum_list avs" using assms by (rule sum_list_positive)
  then have m: "0 < m" using assms(1) by (simp add: m_def)
  have nm: "np_mean (map Some avs) = Some m"
    using assms(1) by (simp add: np_mean_def m_def list_all_iff comp_def)
  define idx where "idx = map (\<lambda>v. v / m) avs"
  have 1: "normalise_indices (map Some avs) = map Some idx"
    using m by (simp add: normalise_indices_def nm idx_def np_div_def comp_def)
  have "sum_list idx = sum_list avs / m"
    unfolding idx_def by (induction avs) (simp_all add: add_divide_distrib)
  also have "\<dots> = real (length avs)"
    using s assms(1) by (simp add: m_def)
  finally have 2: "sum_list idx / real (length avs) = 1" using assms(1) by simp
  have 3: "\<forall>v \<in> set idx. 0 < v" using assms(2) m by (auto simp add: idx_def)
  have 0: "length idx = length avs" by (simp add: idx_def)
  show ?thesis using 1 0 3 2 by (intro exI [of _ idx] conjI)
qed

lemma seasonal_indices_mean:
  assumes "0 < p" and "\<forall>v \<in> set x. 0 < v" and "2 * p \<le> length x"
  shows "\<exists>idx. seasonal_indices p x = map Some idx \<and> length idx = p \<and>
     (\<forall>v \<in> set idx. 0 < v) \<and> sum_list idx / real p = 1"
proof -
  define avgs where "avgs = seasonal_mean p (detrend x (centred_trend p x))"
  define avs where "avs = map the avgs"
  have l: "length avgs = p" by (simp add: avgs_def length_seasonal_mean)
  have n: "\<exists>a. 0 < a \<and> avgs ! k = Some a" if "k < p" for k
    unfolding avgs_def using assms that by (rule seasonal_mean_nth)
  have e: "avgs = map Some avs"
  proof (rule nth_equalityI)
    show "length avgs = length (map Some avs)" by (simp add: avs_def)
    fix k assume "k < length avgs"
    then show "avgs ! k = map Some avs ! k" using n [of k] l by (auto simp add: avs_def)
  qed
  have la: "length avs = p" using l by (simp add: avs_def)
  have ne: "avs \<noteq> []" using la assms(1) by auto
  have pos: "\<forall>a \<in> set avs. 0 < a"
  proof
    fix a assume "a \<in> set avs"
    then obtain k where "k < p" and "a = the (avgs ! k)"
      using l by (auto simp add: avs_def in_set_conv_nth)
    then show "0 < a" using n [of k] by auto
  qed
  show ?thesis
    using normalise_indices_mean [OF ne pos] unfolding seasonal_indices_def avgs_def [symmetric] e la
    by simp
qed

lemma seasonal_decompose_ok:
  assumes "\<forall>v \<in> set x. 0 < v" and "2 * p \<le> length x"
  shows "seasonal_decompose p x =
     Inr \<lparr>observed = x, trend = centred_trend p x,
          seasonal = tile (length x) (seasonal_indices p x),
          resid = residual x (tile (length x) (seasonal_indices p x)) (centred_trend p x)\<rparr>"
proof -
  have "\<not> list_ex (\<lambda>v. v \<le> 0) x"
    using assms(1) by (auto simp add: list_ex_iff)
  then show ?thesis using assms(2) by (simp add: seasonal_decompose_def Let_def)
qed

text \<open>
  C9. For every dataset whose monthly series is decomposable (all its values
  positive, at least 24 points), \<^verbatim>\<open>decompose_revenue\<close> returns a figure whose
  seasonal trace is the tiling of 12 seasonal indices, one per calendar position,
  and the mean of the 12 indices is 1 (over the reals).
\<close>

theorem seasonal_indices_normalised:
  assumes "x = map snd (monthly_revenue (input_data self))"
    and "\<forall>v \<in> set x. 0 < v" and "24 \<le> length x"
  shows "\<exists>fig idx. decompose_revenue seasonal_decompose self = (Inr (Some fig), self) \<and>
     length idx = 12 \<and> seasonal_indices 12 x = map Some idx \<and>
     seasonal_trace fig = tile (length x) (map Some idx) \<and>
     (\<forall>v \<in> set idx. 0 < v) \<and> sum_list idx / 12 = 1"
proof -
  have l: "2 * 12 \<le> length x" using assms(3) by simp
  obtain idx where i: "seasonal_indices 12 x = map Some idx" "length idx = 12"
      "\<forall>v \<in> set idx. 0 < v" "sum_list idx / real 12 = 1"
    using seasonal_indices_mean [OF _ assms(2) l] by auto
  define fig where "fig = \<lparr>original_trace = x, trend_trace = centred_trend 12 x,
      seasonal_trace = tile (length x) (seasonal_indices 12 x),
      residual_trace = residual x (tile (length x) (seasonal_indices 12 x)) (centred_trend 12 x)\<rparr>"
  have d: "decompose_revenue seasonal_decompose self = (Inr (Some fig), self)"
    unfolding decompose_revenue_def Let_def assms(1) [symmetric]
      seasonal_decompose_ok [OF assms(2) l] fig_def
    by simp
  have s: "seasonal_trace fig = tile (length x) (map Some idx)"
    by (simp add: fig_def i(1))
  have m: "sum_list idx / 12 = 1" using i(4) by simp
  show ?thesis
    using d i(2) i(1) s i(3) m by (intro exI [of _ fig] exI [of _ idx] conjI)
qed

lemma two_years_series:
  "map snd (monthly_revenue two_years) =
     [1, 2, 3, 4, 5, 6, 7, 8, 9, 10, 11, 12, 1, 2, 3, 4, 5, 6, 7, 8, 9, 10, 11, 12]"
  by (simp add: monthly_revenue_def groupby_sum_def group_keys_def group_values_def
      sort_values_def two_years_def)

theorem seasonal_indices_normalised_witness:
  "map snd (monthly_revenue (input_data \<lparr>input_data = two_years, tsa_log = []\<rparr>)) =
     [1, 2, 3, 4, 5, 6, 7, 8, 9, 10, 11, 12, 1, 2, 3, 4, 5, 6, 7, 8, 9, 10, 11, 12] \<and>
   (\<exists>fig idx. decompose_revenue seasonal_decompose \<lparr>input_data = two_years, tsa_log = []\<rparr>
        = (Inr (Some fig), \<lparr>input_data = two_years, tsa_log = []\<rparr>) \<and>
      length idx = 12 \<and>
      seasonal_trace fig = tile 24 (map Some idx) \<and>
      sum_list idx / 12 = 1)"
proof -
  define x :: "real list" where
    "x = [1, 2, 3, 4, 5, 6, 7, 8, 9, 10, 11, 12, 1, 2, 3, 4, 5, 6, 7, 8, 9, 10, 11, 12]"
  have a: "x = map snd (monthly_revenue (input_data \<lparr>input_data = two_years, tsa_log = []\<rparr>))"
    by (simp add: two_years_series x_def)
  have b: "\<forall>v \<in> set x. 0 < v" by (simp add: x_def)
  have c: "24 \<le> length x" by (simp add: x_def)
  have n: "length x = 24" by (simp add: x_def)
  have "\<exists>fig idx. decompose_revenue seasonal_decompose \<lparr>input_data = two_years, tsa_log = []\<rparr>
        = (Inr (Some fig), \<lparr>input_data = two_years, tsa_log = []\<rparr>) \<and>
      length idx = 12 \<and>
      seasonal_trace fig = tile 24 (map Some idx) \<and>
      sum_list idx / 12 = 1"
    using seasonal_indices_normalised [OF a b c] unfolding n by blast
  then show ?thesis using a unfolding x_def by simp
qed

end
